theory Spec2Isabelle
  imports Complex_Main "HOL-Library.Word"
begin

section \<open>X402Billing: the ledger contract\<close>

text \<open>
  The contract is Solidity \<^verbatim>\<open>^0.8.20\<close>: \<^verbatim>\<open>uint256\<close> arithmetic is checked (an overflow
  or underflow is a panic that reverts the call), a failing \<^verbatim>\<open>require\<close> reverts the call,
  and a reverted call leaves no trace in storage. Storage mappings are total: an absent
  key reads as the zero value.
\<close>

subsection \<open>Data\<close>

type_synonym address = "160 word"
type_synonym bytes32 = "256 word"
type_synonym uint256 = "256 word"
type_synonym bytes = "8 word list"

record ApiConfig =
  cfg_provider :: address
  cfg_paymentToken :: address
  cfg_pricePerUnit :: uint256
  cfg_metadataURI :: string
  cfg_active :: bool

datatype UsageStatus = NoneStatus | Reported | Settled

record UsageRecord =
  rec_apiId :: bytes32
  rec_consumer :: address
  rec_units :: uint256
  rec_pricePerUnitSnapshot :: uint256
  rec_paymentToken :: address
  rec_status :: UsageStatus
  rec_offchainRef :: string

datatype event =
    ApiRegistered bytes32 address address uint256 string
  | ApiConfigUpdated bytes32 address uint256 string bool
  | UsagePrepaid bytes32 address address uint256 uint256 address
  | UsageReported bytes32 bytes32 address uint256 address string
  | UsageSettled bytes32 bytes32 address uint256 uint256 address
  | ProviderWithdraw bytes32 address uint256 address

text \<open>The four storage mappings of the contract, and the events emitted so far.\<close>

record state =
  s_apis :: "bytes32 \<Rightarrow> ApiConfig"
  s_prepaidUnits :: "bytes32 \<Rightarrow> address \<Rightarrow> uint256"
  s_providerBalances :: "bytes32 \<Rightarrow> uint256"
  s_usageRecords :: "bytes32 \<Rightarrow> UsageRecord"
  s_logs :: "event list"

definition zeroApiConfig :: ApiConfig where
  "zeroApiConfig = \<lparr>cfg_provider = 0, cfg_paymentToken = 0, cfg_pricePerUnit = 0,
     cfg_metadataURI = [], cfg_active = False\<rparr>"

definition zeroUsageRecord :: UsageRecord where
  "zeroUsageRecord = \<lparr>rec_apiId = 0, rec_consumer = 0, rec_units = 0,
     rec_pricePerUnitSnapshot = 0, rec_paymentToken = 0, rec_status = NoneStatus,
     rec_offchainRef = []\<rparr>"

definition init_state :: state where
  "init_state = \<lparr>s_apis = (\<lambda>_. zeroApiConfig), s_prepaidUnits = (\<lambda>_ _. 0),
     s_providerBalances = (\<lambda>_. 0), s_usageRecords = (\<lambda>_. zeroUsageRecord), s_logs = []\<rparr>"

text \<open>What a call sees of its transaction and block.\<close>

record env =
  msg_sender :: address
  this :: address
  block_timestamp :: uint256
  block_number :: uint256

text \<open>
  The revert reasons, one constructor for each \<^verbatim>\<open>require\<close> message of the contract, the
  arithmetic panic of checked arithmetic, and a revert inside the token that bubbles up.
\<close>

datatype error =
    NotApiProvider
  | ApiAlreadyExists
  | InvalidPaymentToken
  | InvalidPrice
  | ApiNotFound
  | ApiNotActive
  | UnitsMustBePositive
  | InvalidConsumer
  | TokenTransferFailed
  | InsufficientPrepaidUnits
  | UsageAlreadyExists
  | UsageNotSettleable
  | InvalidTo
  | InvalidAmount
  | ArithmeticPanic
  | ExternalCallReverted

text \<open>The error kinds of the specification, and the kind each revert reason stands for.\<close>

datatype errorKind =
    InvalidArgument | NotFound | Unauthorized | Inactive | InsufficientBalance
  | InvalidState | DuplicateUsage | AlreadyExists | TransferFailed | Overflow

fun kind :: "error \<Rightarrow> errorKind" where
  "kind NotApiProvider = Unauthorized"
| "kind ApiAlreadyExists = AlreadyExists"
| "kind InvalidPaymentToken = InvalidArgument"
| "kind InvalidPrice = InvalidArgument"
| "kind ApiNotFound = NotFound"
| "kind ApiNotActive = Inactive"
| "kind UnitsMustBePositive = InvalidArgument"
| "kind InvalidConsumer = InvalidArgument"
| "kind TokenTransferFailed = TransferFailed"
| "kind InsufficientPrepaidUnits = InsufficientBalance"
| "kind UsageAlreadyExists = DuplicateUsage"
| "kind UsageNotSettleable = InvalidState"
| "kind InvalidTo = InvalidArgument"
| "kind InvalidAmount = InvalidArgument"
| "kind ArithmeticPanic = Overflow"
| "kind ExternalCallReverted = TransferFailed"

subsection \<open>Checked arithmetic\<close>

definition checked_mul :: "uint256 \<Rightarrow> uint256 \<Rightarrow> error + uint256" where
  "checked_mul a b = (if unat a * unat b < 2 ^ 256 then Inr (a * b) else Inl ArithmeticPanic)"

definition checked_add :: "uint256 \<Rightarrow> uint256 \<Rightarrow> error + uint256" where
  "checked_add a b = (if unat a + unat b < 2 ^ 256 then Inr (a + b) else Inl ArithmeticPanic)"

definition checked_sub :: "uint256 \<Rightarrow> uint256 \<Rightarrow> error + uint256" where
  "checked_sub a b = (if unat b \<le> unat a then Inr (a - b) else Inl ArithmeticPanic)"

subsection \<open>The payment token\<close>

text \<open>
  The token behind \<^verbatim>\<open>IERC20(cfg.paymentToken)\<close> is another contract; its code is not
  part of the ledger. It is a parameter: a state \<open>'t\<close> of all tokens and the two functions
  the ledger calls, each given the token's address and the calling contract, and each
  either reverting or returning a boolean and the tokens' new state. The token does not
  call back into the ledger.
\<close>

datatype 't call_result = CallReverted | CallReturned bool 't

record 't IERC20 =
  transferFrom :: "address \<Rightarrow> address \<Rightarrow> address \<Rightarrow> address \<Rightarrow> uint256 \<Rightarrow> 't \<Rightarrow> 't call_result"
  transfer :: "address \<Rightarrow> address \<Rightarrow> address \<Rightarrow> uint256 \<Rightarrow> 't \<Rightarrow> 't call_result"

subsection \<open>Views\<close>

definition getApiConfig :: "state \<Rightarrow> bytes32 \<Rightarrow> ApiConfig" where
  "getApiConfig s apiId = s_apis s apiId"

definition prepaidUnits :: "state \<Rightarrow> bytes32 \<Rightarrow> address \<Rightarrow> uint256" where
  "prepaidUnits s apiId consumer = s_prepaidUnits s apiId consumer"

definition providerBalance :: "state \<Rightarrow> bytes32 \<Rightarrow> uint256" where
  "providerBalance s apiId = s_providerBalances s apiId"

definition getUsage :: "state \<Rightarrow> bytes32 \<Rightarrow> UsageRecord" where
  "getUsage s usageId = s_usageRecords s usageId"

subsection \<open>Operations\<close>

definition emit :: "event \<Rightarrow> state \<Rightarrow> state" where
  "emit ev s = s\<lparr>s_logs := s_logs s @ [ev]\<rparr>"

definition registerApi ::
  "env \<Rightarrow> bytes32 \<Rightarrow> address \<Rightarrow> uint256 \<Rightarrow> string \<Rightarrow> state \<Rightarrow> error + state" where
  "registerApi e apiId paymentToken pricePerUnit metadataURI s =
    (let cfg = s_apis s apiId in
     if cfg_provider cfg \<noteq> 0 then Inl ApiAlreadyExists
     else if paymentToken = 0 then Inl InvalidPaymentToken
     else if \<not> 0 < pricePerUnit then Inl InvalidPrice
     else
       let cfg' = cfg\<lparr>cfg_provider := msg_sender e, cfg_paymentToken := paymentToken,
                     cfg_pricePerUnit := pricePerUnit, cfg_metadataURI := metadataURI,
                     cfg_active := True\<rparr>
       in Inr (emit (ApiRegistered apiId (msg_sender e) paymentToken pricePerUnit metadataURI)
                (s\<lparr>s_apis := (s_apis s)(apiId := cfg')\<rparr>)))"

text \<open>
  The modifier \<^verbatim>\<open>onlyProvider\<close> runs before the body of \<^verbatim>\<open>updateApiConfig\<close>
  and of \<^verbatim>\<open>withdrawProviderRevenue\<close>.
\<close>

definition onlyProvider :: "env \<Rightarrow> bytes32 \<Rightarrow> state \<Rightarrow> (error + 'a) \<Rightarrow> error + 'a" where
  "onlyProvider e apiId s body =
    (if cfg_provider (s_apis s apiId) = msg_sender e then body else Inl NotApiProvider)"

definition updateApiConfig ::
  "env \<Rightarrow> bytes32 \<Rightarrow> uint256 \<Rightarrow> string \<Rightarrow> bool \<Rightarrow> state \<Rightarrow> error + state" where
  "updateApiConfig e apiId pricePerUnit metadataURI active s =
    onlyProvider e apiId s
     (let cfg = s_apis s apiId in
      if cfg_provider cfg = 0 then Inl ApiNotFound
      else
        let cfg' = cfg\<lparr>cfg_pricePerUnit := pricePerUnit, cfg_metadataURI := metadataURI,
                      cfg_active := active\<rparr>
        in Inr (emit (ApiConfigUpdated apiId (cfg_provider cfg') pricePerUnit metadataURI active)
                 (s\<lparr>s_apis := (s_apis s)(apiId := cfg')\<rparr>)))"

definition prepay ::
  "'t IERC20 \<Rightarrow> env \<Rightarrow> bytes32 \<Rightarrow> uint256 \<Rightarrow> address \<Rightarrow> state \<times> 't \<Rightarrow> error + state \<times> 't" where
  "prepay erc e apiId units consumer w =
    (case w of (s, t) \<Rightarrow>
     let cfg = s_apis s apiId in
     if cfg_provider cfg = 0 then Inl ApiNotFound
     else if \<not> cfg_active cfg then Inl ApiNotActive
     else if \<not> 0 < units then Inl UnitsMustBePositive
     else if consumer = 0 then Inl InvalidConsumer
     else
       (case checked_mul (cfg_pricePerUnit cfg) units of
          Inl p \<Rightarrow> Inl p
        | Inr amount \<Rightarrow>
           (case transferFrom erc (cfg_paymentToken cfg) (this e) (msg_sender e) (this e) amount t of
              CallReverted \<Rightarrow> Inl ExternalCallReverted
            | CallReturned ok t' \<Rightarrow>
               if \<not> ok then Inl TokenTransferFailed
               else
                 (case checked_add (s_prepaidUnits s apiId consumer) units of
                    Inl p \<Rightarrow> Inl p
                  | Inr n \<Rightarrow>
                     Inr (emit (UsagePrepaid apiId (msg_sender e) consumer units amount
                                  (cfg_paymentToken cfg))
                            (s\<lparr>s_prepaidUnits :=
                                 (s_prepaidUnits s)(apiId := (s_prepaidUnits s apiId)(consumer := n))\<rparr>),
                          t')))))"

text \<open>
  \<^verbatim>\<open>abi.encodePacked\<close> of the six values: the fixed-width ones big-endian at their
  width, the string as its bytes. The hash \<^verbatim>\<open>keccak256\<close> is a parameter.
\<close>

definition be_bytes :: "nat \<Rightarrow> 'a::len word \<Rightarrow> bytes" where
  "be_bytes n w = map (\<lambda>i. ucast (drop_bit (8 * (n - 1 - i)) w)) [0..<n]"

definition encodePacked ::
  "bytes32 \<Rightarrow> address \<Rightarrow> uint256 \<Rightarrow> string \<Rightarrow> uint256 \<Rightarrow> uint256 \<Rightarrow> bytes" where
  "encodePacked apiId consumer units offchainRef ts num =
     be_bytes 32 apiId @ be_bytes 20 consumer @ be_bytes 32 units
     @ map (\<lambda>c. of_nat (of_char c)) offchainRef @ be_bytes 32 ts @ be_bytes 32 num"

definition reportUsage ::
  "(bytes \<Rightarrow> bytes32) \<Rightarrow> env \<Rightarrow> bytes32 \<Rightarrow> address \<Rightarrow> uint256 \<Rightarrow> string \<Rightarrow> state
     \<Rightarrow> error + bytes32 \<times> state" where
  "reportUsage keccak256 e apiId consumer units offchainRef s =
    (let cfg = s_apis s apiId in
     if cfg_provider cfg = 0 then Inl ApiNotFound
     else if \<not> 0 < units then Inl UnitsMustBePositive
     else if \<not> units \<le> s_prepaidUnits s apiId consumer then Inl InsufficientPrepaidUnits
     else
       (case checked_sub (s_prepaidUnits s apiId consumer) units of
          Inl p \<Rightarrow> Inl p
        | Inr n \<Rightarrow>
           let s1 = s\<lparr>s_prepaidUnits :=
                        (s_prepaidUnits s)(apiId := (s_prepaidUnits s apiId)(consumer := n))\<rparr>;
               usageId = keccak256 (encodePacked apiId consumer units offchainRef
                                      (block_timestamp e) (block_number e));
               rec = s_usageRecords s1 usageId
           in if rec_status rec \<noteq> NoneStatus then Inl UsageAlreadyExists
              else
                let rec' = rec\<lparr>rec_apiId := apiId, rec_consumer := consumer, rec_units := units,
                              rec_pricePerUnitSnapshot := cfg_pricePerUnit cfg,
                              rec_paymentToken := cfg_paymentToken cfg,
                              rec_status := Reported, rec_offchainRef := offchainRef\<rparr>
                in Inr (usageId,
                        emit (UsageReported apiId usageId consumer units (msg_sender e) offchainRef)
                          (s1\<lparr>s_usageRecords := (s_usageRecords s1)(usageId := rec')\<rparr>))))"

definition settleUsage :: "env \<Rightarrow> bytes32 \<Rightarrow> state \<Rightarrow> error + state" where
  "settleUsage e usageId s =
    (let rec = s_usageRecords s usageId in
     if rec_status rec \<noteq> Reported then Inl UsageNotSettleable
     else
       let cfg = s_apis s (rec_apiId rec) in
       if cfg_provider cfg = 0 then Inl ApiNotFound
       else
         (case checked_mul (rec_units rec) (rec_pricePerUnitSnapshot rec) of
            Inl p \<Rightarrow> Inl p
          | Inr amount \<Rightarrow>
             (case checked_add (s_providerBalances s (rec_apiId rec)) amount of
                Inl p \<Rightarrow> Inl p
              | Inr b \<Rightarrow>
                 Inr (emit (UsageSettled (rec_apiId rec) usageId (cfg_provider cfg) (rec_units rec)
                              amount (rec_paymentToken rec))
                       (s\<lparr>s_providerBalances := (s_providerBalances s)(rec_apiId rec := b),
                          s_usageRecords :=
                            (s_usageRecords s)(usageId := rec\<lparr>rec_status := Settled\<rparr>)\<rparr>)))))"

definition withdrawProviderRevenue ::
  "'t IERC20 \<Rightarrow> env \<Rightarrow> bytes32 \<Rightarrow> uint256 \<Rightarrow> address \<Rightarrow> state \<times> 't \<Rightarrow> error + state \<times> 't" where
  "withdrawProviderRevenue erc e apiId amount dest w =
    (case w of (s, t) \<Rightarrow>
     onlyProvider e apiId s
      (if dest = 0 then Inl InvalidTo
       else
         let bal = s_providerBalances s apiId in
         if \<not> (0 < amount \<and> amount \<le> bal) then Inl InvalidAmount
         else
           (case checked_sub bal amount of
              Inl p \<Rightarrow> Inl p
            | Inr b \<Rightarrow>
               let s1 = s\<lparr>s_providerBalances := (s_providerBalances s)(apiId := b)\<rparr>;
                   token = cfg_paymentToken (s_apis s1 apiId)
               in (case transfer erc token (this e) dest amount t of
                     CallReverted \<Rightarrow> Inl ExternalCallReverted
                   | CallReturned ok t' \<Rightarrow>
                      if \<not> ok then Inl TokenTransferFailed
                      else Inr (emit (ProviderWithdraw apiId (msg_sender e) amount token) s1, t')))))"

subsection \<open>Transactions\<close>

text \<open>
  A transaction is one external call of the contract. If the call reverts, the EVM
  discards every write the call made, in the ledger and in the token; the caller sees the
  revert reason. Otherwise the writes are committed and the caller sees the return value
  (\<open>Some usageId\<close> from \<^verbatim>\<open>reportUsage\<close>, nothing from the others).
\<close>

datatype call =
    RegisterApi bytes32 address uint256 string
  | UpdateApiConfig bytes32 uint256 string bool
  | Prepay bytes32 uint256 address
  | ReportUsage bytes32 address uint256 string
  | SettleUsage bytes32
  | WithdrawProviderRevenue bytes32 uint256 address

fun run ::
  "'t IERC20 \<Rightarrow> (bytes \<Rightarrow> bytes32) \<Rightarrow> env \<Rightarrow> call \<Rightarrow> state \<times> 't
     \<Rightarrow> error + bytes32 option \<times> state \<times> 't" where
  "run erc keccak256 e (RegisterApi apiId paymentToken pricePerUnit metadataURI) (s, t) =
     (case registerApi e apiId paymentToken pricePerUnit metadataURI s of
        Inl err \<Rightarrow> Inl err | Inr s' \<Rightarrow> Inr (None, s', t))"
| "run erc keccak256 e (UpdateApiConfig apiId pricePerUnit metadataURI active) (s, t) =
     (case updateApiConfig e apiId pricePerUnit metadataURI active s of
        Inl err \<Rightarrow> Inl err | Inr s' \<Rightarrow> Inr (None, s', t))"
| "run erc keccak256 e (Prepay apiId units consumer) (s, t) =
     (case prepay erc e apiId units consumer (s, t) of
        Inl err \<Rightarrow> Inl err | Inr w' \<Rightarrow> Inr (None, w'))"
| "run erc keccak256 e (ReportUsage apiId consumer units offchainRef) (s, t) =
     (case reportUsage keccak256 e apiId consumer units offchainRef s of
        Inl err \<Rightarrow> Inl err | Inr (usageId, s') \<Rightarrow> Inr (Some usageId, s', t))"
| "run erc keccak256 e (SettleUsage usageId) (s, t) =
     (case settleUsage e usageId s of
        Inl err \<Rightarrow> Inl err | Inr s' \<Rightarrow> Inr (None, s', t))"
| "run erc keccak256 e (WithdrawProviderRevenue apiId amount dest) (s, t) =
     (case withdrawProviderRevenue erc e apiId amount dest (s, t) of
        Inl err \<Rightarrow> Inl err | Inr w' \<Rightarrow> Inr (None, w'))"

definition transact ::
  "'t IERC20 \<Rightarrow> (bytes \<Rightarrow> bytes32) \<Rightarrow> env \<Rightarrow> call \<Rightarrow> state \<times> 't
     \<Rightarrow> (error + bytes32 option) \<times> state \<times> 't" where
  "transact erc keccak256 e c w =
     (case run erc keccak256 e c w of
        Inl err \<Rightarrow> (Inl err, w)
      | Inr (r, w') \<Rightarrow> (Inr r, w'))"

text \<open>A sequence of transactions, each with its own sender and block.\<close>

fun transact_all ::
  "'t IERC20 \<Rightarrow> (bytes \<Rightarrow> bytes32) \<Rightarrow> (env \<times> call) list \<Rightarrow> state \<times> 't \<Rightarrow> state \<times> 't" where
  "transact_all erc keccak256 [] w = w"
| "transact_all erc keccak256 ((e, c) # cs) w =
     transact_all erc keccak256 cs (snd (transact erc keccak256 e c w))"

subsection \<open>The life of a usage record\<close>

text \<open>
  What one transaction may do to the record under one \<^verbatim>\<open>usageId\<close>: leave it as it is,
  create it as \<open>Reported\<close> where none was, or turn \<open>Reported\<close> into \<open>Settled\<close> with every
  other field kept.
\<close>

definition usage_step :: "UsageRecord \<Rightarrow> UsageRecord \<Rightarrow> bool" where
  "usage_step r r' =
     (r' = r
      \<or> (rec_status r = NoneStatus \<and> rec_status r' = Reported)
      \<or> (rec_status r = Reported \<and> r' = r\<lparr>rec_status := Settled\<rparr>))"

text \<open>
  What any number of such steps may do: an absent record may become anything, a
  \<open>Reported\<close> one stays or becomes \<open>Settled\<close> with its fields, a \<open>Settled\<close> one stays.
\<close>

definition usage_path :: "UsageRecord \<Rightarrow> UsageRecord \<Rightarrow> bool" where
  "usage_path r r' =
     (case rec_status r of
        NoneStatus \<Rightarrow> True
      | Reported \<Rightarrow> r' = r \<or> r' = r\<lparr>rec_status := Settled\<rparr>
      | Settled \<Rightarrow> r' = r)"

fun rank :: "UsageStatus \<Rightarrow> nat" where
  "rank NoneStatus = 0"
| "rank Reported = 1"
| "rank Settled = 2"

subsection \<open>Stand-ins for concrete runs\<close>

text \<open>
  Modelled from the spec: the payment-unit collaborator. The repository's
  \<^verbatim>\<open>contracts/MockToken.sol\<close> is not among the sources; the specification asks of a
  transfer that it fully succeeds or fails. This stand-in keeps a balance for each token
  and owner, moves the value if the owner has it and reverts otherwise; it has no
  allowances. Every theorem below holds for every token; the stand-in only serves to
  run the ledger on concrete inputs.
\<close>

type_synonym tokens = "address \<Rightarrow> address \<Rightarrow> uint256"

definition move :: "address \<Rightarrow> address \<Rightarrow> address \<Rightarrow> uint256 \<Rightarrow> tokens \<Rightarrow> tokens call_result" where
  "move token src dst v b =
     (if unat (b token src) < unat v then CallReverted
      else
        let b1 = b(token := (b token)(src := b token src - v)) in
        if 2 ^ 256 \<le> unat (b1 token dst) + unat v then CallReverted
        else CallReturned True (b1(token := (b1 token)(dst := b1 token dst + v))))"

definition demoToken :: "tokens IERC20" where
  "demoToken = \<lparr>transferFrom = (\<lambda>token caller src dst v. move token src dst v),
                 transfer = (\<lambda>token caller dst v. move token caller dst v)\<rparr>"

text \<open>A token whose transfers return \<^verbatim>\<open>false\<close> without moving anything.\<close>

definition refusingToken :: "tokens IERC20" where
  "refusingToken = \<lparr>transferFrom = (\<lambda>token caller src dst v b. CallReturned False b),
                     transfer = (\<lambda>token caller dst v b. CallReturned False b)\<rparr>"

text \<open>Balances: one holder with a given balance of one token, nothing else.\<close>

definition funded :: "address \<Rightarrow> address \<Rightarrow> uint256 \<Rightarrow> tokens" where
  "funded token owner v = (\<lambda>tk a. if tk = token \<and> a = owner then v else 0)"

text \<open>
  A stand-in for \<^verbatim>\<open>keccak256\<close> in concrete runs: the length of the input. Every theorem
  below holds for every hash function.
\<close>

definition lengthHash :: "bytes \<Rightarrow> bytes32" where
  "lengthHash bs = of_nat (length bs)"

definition env_at :: "address \<Rightarrow> nat \<Rightarrow> env" where
  "env_at sender blk = \<lparr>msg_sender = sender, this = 1000, block_timestamp = of_nat (12 * blk),
                     block_number = of_nat blk\<rparr>"

text \<open>
  A run of the ledger on the stand-ins: provider 1 registers API 5 at price 2 in token 7,
  consumer 2 (holding 100) prepays 5 units, gateway 3 reports one unit and settles it.
  The length hash gives that usage the identifier 152.
\<close>

definition demoStart :: "state \<times> tokens" where
  "demoStart = (init_state, funded 7 2 100)"

definition demoPrepaidTrace :: "(env \<times> call) list" where
  "demoPrepaidTrace =
     [(env_at 1 1, RegisterApi 5 7 2 ''meta''),
      (env_at 2 2, Prepay 5 5 2)]"

definition demoTrace :: "(env \<times> call) list" where
  "demoTrace = demoPrepaidTrace @
     [(env_at 3 3, ReportUsage 5 2 1 ''ref1''),
      (env_at 3 4, SettleUsage 152)]"

definition demoPrepaid :: "state \<times> tokens" where
  "demoPrepaid = transact_all demoToken lengthHash demoPrepaidTrace demoStart"

definition demoSettled :: "state \<times> tokens" where
  "demoSettled = transact_all demoToken lengthHash demoTrace demoStart"

text \<open>
  Further runs: the price changed from 2 to 3 before any prepayment; an API priced at
  \<open>2 ^ 255\<close>; and the price changed from 2 to 9 between the report of usage 152 and its
  settlement.
\<close>

definition demoRepriced :: "state \<times> tokens" where
  "demoRepriced = transact_all demoToken lengthHash
     [(env_at 1 1, RegisterApi 5 7 2 ''meta''),
      (env_at 1 2, UpdateApiConfig 5 3 ''meta'' True)] demoStart"

definition demoExpensive :: "state \<times> tokens" where
  "demoExpensive = transact_all demoToken lengthHash
     [(env_at 1 1, RegisterApi 5 7 (2 ^ 255) ''meta'')] demoStart"

definition demoReported :: "state \<times> tokens" where
  "demoReported = transact_all demoToken lengthHash
     [(env_at 1 4, UpdateApiConfig 5 9 ''meta'' True)]
     (snd (transact demoToken lengthHash (env_at 3 3) (ReportUsage 5 2 1 ''ref1'') demoPrepaid))"

section \<open>The gateway: verifying a signed request\<close>

text \<open>
  \<^verbatim>\<open>verifySignedRequest\<close> of \<^verbatim>\<open>backend/server.js\<close> runs on the parsed JSON body of a
  request, so its inputs are JavaScript values. Numbers are IEEE doubles: a finite
  double is a rational (both zeros are \<open>Finite 0\<close>), and the comparisons the function
  makes are exact on them.
\<close>

datatype jsnum = NaN | NegInfinity | Finite rat | PosInfinity

datatype jsval =
    Undefined
  | Null
  | Boolean bool
  | Number jsnum
  | String string
  | Array "jsval list"
  | Object "(string \<times> jsval) list"

text \<open>The truthiness that \<^verbatim>\<open>!v\<close> and \<^verbatim>\<open>||\<close> test.\<close>

fun truthy :: "jsval \<Rightarrow> bool" where
  "truthy Undefined = False"
| "truthy Null = False"
| "truthy (Boolean b) = b"
| "truthy (Number n) = (n \<noteq> NaN \<and> n \<noteq> Finite 0)"
| "truthy (String s) = (s \<noteq> [])"
| "truthy (Array vs) = True"
| "truthy (Object kvs) = True"

text \<open>The operator \<^verbatim>\<open><\<close> on two numbers; every comparison with \<open>NaN\<close> is false.\<close>

fun num_lt :: "jsnum \<Rightarrow> jsnum \<Rightarrow> bool" where
  "num_lt NaN y = False"
| "num_lt x NaN = False"
| "num_lt PosInfinity y = False"
| "num_lt x NegInfinity = False"
| "num_lt NegInfinity y = True"
| "num_lt x PosInfinity = True"
| "num_lt (Finite a) (Finite b) = (a < b)"

text \<open>
  Reading a property, as the destructuring of the body does: an object has the
  properties it lists (each key once), every other value has none of the four names.
\<close>

fun getProp :: "jsval \<Rightarrow> string \<Rightarrow> jsval" where
  "getProp (Object kvs) key = (case map_of kvs key of None \<Rightarrow> Undefined | Some v \<Rightarrow> v)"
| "getProp v key = Undefined"

text \<open>
  What the function takes from the JavaScript runtime and from \<^verbatim>\<open>ethers\<close>:
  \<^verbatim>\<open>ethers.isAddress\<close>; \<^verbatim>\<open>Number\<close> on a string and on an array or object;
  \<^verbatim>\<open>BigInt\<close>, which throws on some values (\<open>None\<close>); and \<^verbatim>\<open>ethers.verifyTypedData\<close>,
  which returns the recovered address or throws (\<open>None\<close>).
\<close>

record domain =
  d_name :: string
  d_version :: string
  d_chainId :: int
  d_verifyingContract :: string

record message =
  m_consumer :: jsval
  m_apiId :: string
  m_nonce :: int
  m_deadline :: int

record runtime =
  isAddress :: "jsval \<Rightarrow> bool"
  stringToNumber :: "string \<Rightarrow> jsnum"
  objectToNumber :: "jsval \<Rightarrow> jsnum"
  toBigInt :: "jsval \<Rightarrow> int option"
  verifyTypedData :: "domain \<Rightarrow> message \<Rightarrow> jsval \<Rightarrow> string option"

text \<open>\<^verbatim>\<open>Number(v)\<close>.\<close>

fun toNumber :: "runtime \<Rightarrow> jsval \<Rightarrow> jsnum" where
  "toNumber rt Undefined = NaN"
| "toNumber rt Null = Finite 0"
| "toNumber rt (Boolean b) = Finite (if b then 1 else 0)"
| "toNumber rt (Number n) = n"
| "toNumber rt (String s) = stringToNumber rt s"
| "toNumber rt (Array vs) = objectToNumber rt (Array vs)"
| "toNumber rt (Object kvs) = objectToNumber rt (Object kvs)"

text \<open>\<^verbatim>\<open>toLowerCase\<close> on the ASCII letters, which is all an address has.\<close>

definition lowerChar :: "char \<Rightarrow> char" where
  "lowerChar c = (let n = (of_char c :: nat) in if 65 \<le> n \<and> n \<le> 90 then char_of (n + 32) else c)"

definition toLowerCase :: "string \<Rightarrow> string" where
  "toLowerCase s = map lowerChar s"

text \<open>The messages of the errors the function throws; \<open>Thrown\<close> is an exception of the
  runtime or of \<^verbatim>\<open>ethers\<close>.\<close>

datatype verify_error =
    MissingOrInvalidConsumer
  | MissingNonceDeadlineSignature
  | SignatureExpired
  | InvalidSignatureError
  | Thrown

definition verifySignedRequest ::
  "runtime \<Rightarrow> domain \<Rightarrow> int \<Rightarrow> jsval \<Rightarrow> string
     \<Rightarrow> verify_error + jsval \<times> jsval \<times> jsval \<times> jsval" where
  "verifySignedRequest rt eip712Domain dateNow body expectedApiId =
    (let b = (if truthy body then body else Object []);
         consumer = getProp b ''consumer'';
         nonce = getProp b ''nonce'';
         deadline = getProp b ''deadline'';
         signature = getProp b ''signature''
     in
     if \<not> truthy consumer \<or> \<not> isAddress rt consumer then Inl MissingOrInvalidConsumer
     else if \<not> truthy nonce \<or> \<not> truthy deadline \<or> \<not> truthy signature
       then Inl MissingNonceDeadlineSignature
     else
       let nowSec = dateNow div 1000 in
       if num_lt (toNumber rt deadline) (Finite (of_int nowSec)) then Inl SignatureExpired
       else
         (case toBigInt rt nonce of
            None \<Rightarrow> Inl Thrown
          | Some n \<Rightarrow>
             (case toBigInt rt deadline of
                None \<Rightarrow> Inl Thrown
              | Some d \<Rightarrow>
                 (case verifyTypedData rt eip712Domain
                         \<lparr>m_consumer = consumer, m_apiId = expectedApiId, m_nonce = n,
                          m_deadline = d\<rparr> signature of
                    None \<Rightarrow> Inl Thrown
                  | Some recovered \<Rightarrow>
                     (case consumer of
                        String c \<Rightarrow>
                          if toLowerCase recovered \<noteq> toLowerCase c then Inl InvalidSignatureError
                          else Inr (consumer, nonce, deadline, signature)
                      | _ \<Rightarrow> Inl Thrown)))))"

text \<open>
  A runtime for concrete runs: an address is \<^verbatim>\<open>0x\<close> and forty more characters, numbers
  convert to themselves and every other conversion fails, and every signature recovers the
  same signer.
\<close>

definition demoRuntime :: runtime where
  "demoRuntime =
     \<lparr>isAddress = (\<lambda>v. case v of String s \<Rightarrow> length s = 42 \<and> take 2 s = ''0x'' | _ \<Rightarrow> False),
      stringToNumber = (\<lambda>s. NaN),
      objectToNumber = (\<lambda>v. NaN),
      toBigInt = (\<lambda>v. case v of Number (Finite q) \<Rightarrow> Some (floor q) | _ \<Rightarrow> None),
      verifyTypedData = (\<lambda>d m sig. Some ''0x00000000000000000000000000000000000000AA'')\<rparr>"

definition demoDomain :: domain where
  "demoDomain = \<lparr>d_name = ''X402Demo'', d_version = ''1'', d_chainId = 31337,
                  d_verifyingContract = ''0x0000000000000000000000000000000000001000''\<rparr>"

definition signedBody :: "jsval \<Rightarrow> jsval \<Rightarrow> jsval \<Rightarrow> jsval \<Rightarrow> jsval" where
  "signedBody consumer nonce deadline signature =
     Object [(''consumer'', consumer), (''nonce'', nonce), (''deadline'', deadline),
             (''signature'', signature)]"

text \<open>The same runtime with a library that rejects every signature.\<close>

definition rejectingRuntime :: runtime where
  "rejectingRuntime = demoRuntime\<lparr>verifyTypedData := (\<lambda>d m sig. None)\<rparr>"

definition demoConsumer :: jsval where
  "demoConsumer = String ''0x00000000000000000000000000000000000000aa''"

text \<open>A body whose deadline is 4 seconds after the epoch.\<close>

definition expiredBody :: "jsval \<Rightarrow> jsval \<Rightarrow> jsval" where
  "expiredBody consumer nonce =
     signedBody consumer nonce (Number (Finite 4)) (String ''0xsig'')"

section \<open>Proofs about the ledger\<close>

subsection \<open>Checked arithmetic is exact\<close>

lemma unat_mul_256: "unat a * unat b < 2 ^ 256 \<Longrightarrow> unat (a * b :: 256 word) = unat a * unat b"
  using unat_mult_lem [of a b] by simp

lemma unat_add_256: "unat a + unat b < 2 ^ 256 \<Longrightarrow> unat (a + b :: 256 word) = unat a + unat b"
  using unat_add_lem [of a b] by simp

lemma checked_mul_Inr:
  "checked_mul a b = Inr c \<Longrightarrow> c = a * b \<and> unat c = unat a * unat b"
  unfolding checked_mul_def using unat_mul_256 [of a b] by (simp split: if_splits)

lemma checked_add_Inr:
  "checked_add a b = Inr c \<Longrightarrow> c = a + b \<and> unat c = unat a + unat b"
  unfolding checked_add_def using unat_add_256 [of a b] by (simp split: if_splits)

lemma checked_sub_Inr:
  "checked_sub a b = Inr c \<Longrightarrow> c = a - b \<and> unat b \<le> unat a \<and> unat c = unat a - unat b"
  by (auto simp: checked_sub_def unat_sub word_le_nat_alt split: if_splits)

lemma checked_sub_le: "b \<le> a \<Longrightarrow> checked_sub a b = Inr (a - b)"
  by (simp add: checked_sub_def word_le_nat_alt)

subsection \<open>What a successful call has done\<close>

lemma registerApi_InrD:
  assumes "registerApi e a tok p uri s = Inr s'"
  shows "cfg_provider (s_apis s a) = 0" "tok \<noteq> 0" "0 < p"
    "s_apis s' = (s_apis s)(a := (s_apis s a)\<lparr>cfg_provider := msg_sender e,
        cfg_paymentToken := tok, cfg_pricePerUnit := p, cfg_metadataURI := uri, cfg_active := True\<rparr>)"
    "s_prepaidUnits s' = s_prepaidUnits s" "s_providerBalances s' = s_providerBalances s"
    "s_usageRecords s' = s_usageRecords s"
  using assms by (auto simp: registerApi_def Let_def emit_def split: if_splits)

lemma updateApiConfig_InrD:
  assumes "updateApiConfig e a p uri act s = Inr s'"
  shows "cfg_provider (s_apis s a) = msg_sender e" "cfg_provider (s_apis s a) \<noteq> 0"
    "s_apis s' = (s_apis s)(a := (s_apis s a)\<lparr>cfg_pricePerUnit := p, cfg_metadataURI := uri,
        cfg_active := act\<rparr>)"
    "s_prepaidUnits s' = s_prepaidUnits s" "s_providerBalances s' = s_providerBalances s"
    "s_usageRecords s' = s_usageRecords s"
  using assms
  by (auto simp: updateApiConfig_def onlyProvider_def Let_def emit_def split: if_splits)

lemma prepay_InrD:
  assumes "prepay erc e a u c (s, t) = Inr (s', t')"
  shows "cfg_provider (s_apis s a) \<noteq> 0" "cfg_active (s_apis s a)" "0 < u" "c \<noteq> 0"
    "unat (cfg_pricePerUnit (s_apis s a) * u) = unat (cfg_pricePerUnit (s_apis s a)) * unat u"
    "transferFrom erc (cfg_paymentToken (s_apis s a)) (this e) (msg_sender e) (this e)
       (cfg_pricePerUnit (s_apis s a) * u) t = CallReturned True t'"
    "unat (s_prepaidUnits s a c + u) = unat (s_prepaidUnits s a c) + unat u"
    "s_prepaidUnits s' = (s_prepaidUnits s)(a := (s_prepaidUnits s a)(c := s_prepaidUnits s a c + u))"
    "s_apis s' = s_apis s" "s_providerBalances s' = s_providerBalances s"
    "s_usageRecords s' = s_usageRecords s"
  using assms
  by (auto simp: prepay_def Let_def emit_def
      split: if_splits sum.splits call_result.splits dest!: checked_mul_Inr checked_add_Inr)

lemma reportUsage_InrD:
  assumes "reportUsage k e a c u r s = Inr (uid, s')"
  shows "cfg_provider (s_apis s a) \<noteq> 0" "0 < u" "u \<le> s_prepaidUnits s a c"
    "uid = k (encodePacked a c u r (block_timestamp e) (block_number e))"
    "rec_status (s_usageRecords s uid) = NoneStatus"
    "s_apis s' = s_apis s" "s_providerBalances s' = s_providerBalances s"
    "s_prepaidUnits s' = (s_prepaidUnits s)(a := (s_prepaidUnits s a)(c := s_prepaidUnits s a c - u))"
    "s_usageRecords s' = (s_usageRecords s)(uid := (s_usageRecords s uid)\<lparr>rec_apiId := a,
        rec_consumer := c, rec_units := u,
        rec_pricePerUnitSnapshot := cfg_pricePerUnit (s_apis s a),
        rec_paymentToken := cfg_paymentToken (s_apis s a),
        rec_status := Reported, rec_offchainRef := r\<rparr>)"
  using assms
  by (auto simp: reportUsage_def Let_def checked_sub_def emit_def split: if_splits sum.splits)

lemma settleUsage_InrD:
  assumes "settleUsage e uid s = Inr s'"
  shows "rec_status (s_usageRecords s uid) = Reported"
    "unat (s_providerBalances s' (rec_apiId (s_usageRecords s uid))) =
       unat (s_providerBalances s (rec_apiId (s_usageRecords s uid)))
       + unat (rec_units (s_usageRecords s uid)) * unat (rec_pricePerUnitSnapshot (s_usageRecords s uid))"
    "s_usageRecords s' = (s_usageRecords s)(uid := (s_usageRecords s uid)\<lparr>rec_status := Settled\<rparr>)"
    "s_apis s' = s_apis s" "s_prepaidUnits s' = s_prepaidUnits s"
  using assms
  by (auto simp: settleUsage_def Let_def emit_def
      split: if_splits sum.splits dest!: checked_mul_Inr checked_add_Inr)

lemma withdrawProviderRevenue_InrD:
  assumes "withdrawProviderRevenue erc e a amt dest (s, t) = Inr (s', t')"
  shows "cfg_provider (s_apis s a) = msg_sender e" "dest \<noteq> 0" "0 < amt"
    "amt \<le> s_providerBalances s a"
    "transfer erc (cfg_paymentToken (s_apis s a)) (this e) dest amt t = CallReturned True t'"
    "s_providerBalances s' = (s_providerBalances s)(a := s_providerBalances s a - amt)"
    "s_apis s' = s_apis s" "s_prepaidUnits s' = s_prepaidUnits s"
    "s_usageRecords s' = s_usageRecords s"
  using assms
  by (auto simp: withdrawProviderRevenue_def onlyProvider_def Let_def emit_def checked_sub_def
      split: if_splits sum.splits call_result.splits)

subsection \<open>Transactions\<close>

lemma transact_Inl: "run erc k e c w = Inl err \<Longrightarrow> transact erc k e c w = (Inl err, w)"
  by (simp add: transact_def)

lemma transact_Inr: "run erc k e c w = Inr (r, w') \<Longrightarrow> transact erc k e c w = (Inr r, w')"
  by (simp add: transact_def)

lemma transact_InrD: "transact erc k e c w = (Inr r, w') \<Longrightarrow> run erc k e c w = Inr (r, w')"
  by (auto simp: transact_def split: sum.splits)

lemma transact_InlD: "fst (transact erc k e c w) = Inl err \<Longrightarrow> transact erc k e c w = (Inl err, w)"
  by (auto simp: transact_def split: sum.splits)

lemma run_usage_step:
  assumes "run erc k e c (s, t) = Inr (r, s', t')"
  shows "usage_step (s_usageRecords s uid) (s_usageRecords s' uid)"
proof (cases c)
  case (RegisterApi a tok p uri)
  with assms show ?thesis
    by (auto simp: usage_step_def split: sum.splits dest: registerApi_InrD(7))
next
  case (UpdateApiConfig a p uri act)
  with assms show ?thesis
    by (auto simp: usage_step_def split: sum.splits dest: updateApiConfig_InrD(6))
next
  case (Prepay a u c')
  with assms show ?thesis
    by (auto simp: usage_step_def split: sum.splits dest: prepay_InrD(11))
next
  case (ReportUsage a c' u ref)
  with assms obtain uid' where "reportUsage k e a c' u ref s = Inr (uid', s')"
    by (auto split: sum.splits)
  from reportUsage_InrD(5,9) [OF this] show ?thesis
    by (auto simp: usage_step_def)
next
  case (SettleUsage uid')
  with assms have "settleUsage e uid' s = Inr s'"
    by (auto split: sum.splits)
  from settleUsage_InrD(1,3) [OF this] show ?thesis
    by (auto simp: usage_step_def)
next
  case (WithdrawProviderRevenue a amt dest)
  with assms show ?thesis
    by (auto simp: usage_step_def split: sum.splits dest: withdrawProviderRevenue_InrD(9))
qed

lemma usage_step_refl: "usage_step r r"
  by (simp add: usage_step_def)

lemma transact_usage_step:
  "usage_step (getUsage (fst w) uid) (getUsage (fst (snd (transact erc k e c w))) uid)"
proof (cases "run erc k e c w")
  case (Inl err)
  then show ?thesis by (simp add: transact_def usage_step_refl)
next
  case (Inr x)
  obtain s t where w: "w = (s, t)" by (cases w)
  obtain r s' t' where x: "x = (r, s', t')" by (cases x)
  from Inr w x have "run erc k e c (s, t) = Inr (r, s', t')" by simp
  from run_usage_step [OF this] Inr w x show ?thesis
    by (simp add: transact_def getUsage_def)
qed

lemma usage_path_refl: "usage_path r r"
  by (simp add: usage_path_def split: UsageStatus.splits)

lemma usage_step_path: "usage_step r r' \<Longrightarrow> usage_path r' r'' \<Longrightarrow> usage_path r r''"
  by (auto simp: usage_step_def usage_path_def split: UsageStatus.splits)

lemma transact_all_usage_path:
  "usage_path (getUsage (fst w) uid) (getUsage (fst (transact_all erc k cs w)) uid)"
proof (induction cs arbitrary: w)
  case Nil
  show ?case by (simp add: usage_path_refl)
next
  case (Cons x cs)
  obtain e c where x: "x = (e, c)" by (cases x)
  show ?case
    unfolding x transact_all.simps
    by (rule usage_step_path [OF transact_usage_step Cons.IH])
qed

lemma usage_path_rank: "usage_path r r' \<Longrightarrow> rank (rec_status r) \<le> rank (rec_status r')"
  by (auto simp: usage_path_def split: UsageStatus.splits)

lemma settleUsage_not_Reported:
  "rec_status (s_usageRecords s uid) \<noteq> Reported \<Longrightarrow> settleUsage e uid s = Inl UsageNotSettleable"
  by (simp add: settleUsage_def Let_def)

lemma transact_SettleUsage_InrD:
  assumes "transact erc k e (SettleUsage uid) w = (Inr r, w')"
  shows "settleUsage e uid (fst w) = Inr (fst w')" "snd w' = snd w"
proof -
  obtain s t where w: "w = (s, t)" by (cases w)
  from assms have "run erc k e (SettleUsage uid) w = Inr (r, w')"
    by (rule transact_InrD)
  with w show "settleUsage e uid (fst w) = Inr (fst w')" "snd w' = snd w"
    by (auto split: sum.splits)
qed

lemma transact_ReportUsage_InrD:
  assumes "transact erc k e (ReportUsage a c u ref) w = (Inr (Some uid), w1)"
  shows "reportUsage k e a c u ref (fst w) = Inr (uid, fst w1)"
proof -
  obtain s t where w: "w = (s, t)" by (cases w)
  from assms have "run erc k e (ReportUsage a c u ref) w = Inr (Some uid, w1)"
    by (rule transact_InrD)
  with w show ?thesis
    by (auto split: sum.splits)
qed

lemma settled_stays_unsettleable:
  assumes "rec_status (getUsage (fst w) uid) = Settled"
  shows "transact erc k e (SettleUsage uid) (transact_all erc k cs w)
           = (Inl UsageNotSettleable, transact_all erc k cs w)"
proof -
  obtain s t where W: "transact_all erc k cs w = (s, t)"
    by (cases "transact_all erc k cs w")
  have "usage_path (getUsage (fst w) uid) (getUsage (fst (transact_all erc k cs w)) uid)"
    by (rule transact_all_usage_path)
  with assms W have "rec_status (s_usageRecords s uid) = Settled"
    by (simp add: usage_path_def getUsage_def)
  then have "settleUsage e uid s = Inl UsageNotSettleable"
    by (simp add: settleUsage_not_Reported)
  then have "run erc k e (SettleUsage uid) (s, t) = Inl UsageNotSettleable"
    by simp
  then show ?thesis
    unfolding W by (rule transact_Inl)
qed

subsection \<open>Failing transfers\<close>

lemma prepay_without_transfer:
  assumes "\<forall>t'. transferFrom erc (cfg_paymentToken (s_apis s a)) (this e) (msg_sender e) (this e)
                  (cfg_pricePerUnit (s_apis s a) * u) t \<noteq> CallReturned True t'"
  shows "\<exists>err. prepay erc e a u c (s, t) = Inl err"
proof (cases "prepay erc e a u c (s, t)")
  case (Inl err)
  then show ?thesis by blast
next
  case (Inr x)
  obtain s' t' where "x = (s', t')" by (cases x)
  with Inr prepay_InrD(6) [of erc e a u c s t s' t'] assms show ?thesis
    by blast
qed

lemma withdraw_without_transfer:
  assumes "\<forall>t'. transfer erc (cfg_paymentToken (s_apis s a)) (this e) dest amt t
                  \<noteq> CallReturned True t'"
  shows "\<exists>err. withdrawProviderRevenue erc e a amt dest (s, t) = Inl err"
proof (cases "withdrawProviderRevenue erc e a amt dest (s, t)")
  case (Inl err)
  then show ?thesis by blast
next
  case (Inr x)
  obtain s' t' where "x = (s', t')" by (cases x)
  with Inr withdrawProviderRevenue_InrD(5) [of erc e a amt dest s t s' t'] assms show ?thesis
    by blast
qed

lemma withdraw_transfer_failed:
  assumes "\<forall>t'. transfer erc (cfg_paymentToken (s_apis s a)) (this e) dest amt t
                  \<noteq> CallReturned True t'"
    and "cfg_provider (s_apis s a) = msg_sender e" "dest \<noteq> 0" "0 < amt"
    and "amt \<le> s_providerBalances s a"
  shows "\<exists>err. withdrawProviderRevenue erc e a amt dest (s, t) = Inl err
            \<and> kind err = TransferFailed"
proof (cases "transfer erc (cfg_paymentToken (s_apis s a)) (this e) dest amt t")
  case CallReverted
  with assms(2-) show ?thesis
    by (simp add: withdrawProviderRevenue_def onlyProvider_def Let_def checked_sub_le)
next
  case (CallReturned b t')
  with assms(1) have "\<not> b" by auto
  with CallReturned assms(2-) show ?thesis
    by (simp add: withdrawProviderRevenue_def onlyProvider_def Let_def checked_sub_le)
qed

subsection \<open>The gateway\<close>

lemma getProp_body_or_empty:
  "getProp (if truthy body then body else Object []) key = getProp body key"
  by (cases body) simp_all

subsection \<open>Concrete runs\<close>

lemma length_be_bytes: "length (be_bytes n w) = n"
  by (simp add: be_bytes_def)

lemma lengthHash_encodePacked:
  "lengthHash (encodePacked a c u r ts n) = of_nat (148 + length r)"
  by (simp add: lengthHash_def encodePacked_def length_be_bytes)

lemmas ledger_defs =
  transact_def registerApi_def updateApiConfig_def onlyProvider_def prepay_def reportUsage_def
  settleUsage_def withdrawProviderRevenue_def emit_def Let_def checked_mul_def checked_add_def
  checked_sub_def getApiConfig_def prepaidUnits_def providerBalance_def getUsage_def
  init_state_def zeroApiConfig_def zeroUsageRecord_def env_at_def
  demoToken_def refusingToken_def move_def funded_def lengthHash_encodePacked
  demoStart_def demoPrepaidTrace_def demoTrace_def demoPrepaid_def demoSettled_def
  demoRepriced_def demoExpensive_def demoReported_def

lemmas gateway_defs =
  verifySignedRequest_def demoRuntime_def rejectingRuntime_def demoDomain_def signedBody_def
  expiredBody_def demoConsumer_def

section \<open>The claims\<close>

text \<open>
  C1. \<^verbatim>\<open>reportUsage(apiId, consumer, units, offchainRef)\<close> fails, and changes nothing,
  whenever the prepaid units of the consumer for the API are fewer than \<open>units\<close>. When it
  succeeds it returns a \<^verbatim>\<open>usageId\<close>, the consumer had at least \<open>units\<close> and has
  exactly \<open>units\<close> fewer afterwards, and the record under that identifier, which did not
  exist before, has status Reported, the price of the API at the time of the report as
  its snapshot, and the reported API, consumer and units.
\<close>

theorem reportUsage_debits_and_records:
  "(unat (prepaidUnits s apiId consumer) < unat units \<longrightarrow>
      (\<exists>err. transact erc keccak256 e (ReportUsage apiId consumer units offchainRef) (s, t)
               = (Inl err, (s, t))))
   \<and> (transact erc keccak256 e (ReportUsage apiId consumer units offchainRef) (s, t)
        = (Inr r, (s', t')) \<longrightarrow>
      (\<exists>usageId. r = Some usageId
         \<and> unat units \<le> unat (prepaidUnits s apiId consumer)
         \<and> unat (prepaidUnits s' apiId consumer)
             = unat (prepaidUnits s apiId consumer) - unat units
         \<and> rec_status (getUsage s usageId) = NoneStatus
         \<and> rec_status (getUsage s' usageId) = Reported
         \<and> rec_pricePerUnitSnapshot (getUsage s' usageId)
             = cfg_pricePerUnit (getApiConfig s apiId)
         \<and> rec_apiId (getUsage s' usageId) = apiId
         \<and> rec_consumer (getUsage s' usageId) = consumer
         \<and> rec_units (getUsage s' usageId) = units))"
proof (intro conjI impI)
  assume "unat (prepaidUnits s apiId consumer) < unat units"
  then have "\<exists>err. reportUsage keccak256 e apiId consumer units offchainRef s = Inl err"
    by (simp add: reportUsage_def Let_def prepaidUnits_def word_le_nat_alt)
  then show "\<exists>err. transact erc keccak256 e (ReportUsage apiId consumer units offchainRef) (s, t)
               = (Inl err, (s, t))"
    by (auto simp: transact_def)
next
  assume "transact erc keccak256 e (ReportUsage apiId consumer units offchainRef) (s, t)
        = (Inr r, (s', t'))"
  then have "run erc keccak256 e (ReportUsage apiId consumer units offchainRef) (s, t)
        = Inr (r, s', t')"
    by (rule transact_InrD)
  then obtain usageId where r: "r = Some usageId"
    and ru: "reportUsage keccak256 e apiId consumer units offchainRef s = Inr (usageId, s')"
    by (auto split: sum.splits)
  note D = reportUsage_InrD [OF ru]
  from D(3) have le: "unat units \<le> unat (s_prepaidUnits s apiId consumer)"
    by (simp add: word_le_nat_alt)
  from D(3) have sub: "unat (s_prepaidUnits s apiId consumer - units)
      = unat (s_prepaidUnits s apiId consumer) - unat units"
    by (rule unat_sub)
  show "\<exists>usageId. r = Some usageId
         \<and> unat units \<le> unat (prepaidUnits s apiId consumer)
         \<and> unat (prepaidUnits s' apiId consumer)
             = unat (prepaidUnits s apiId consumer) - unat units
         \<and> rec_status (getUsage s usageId) = NoneStatus
         \<and> rec_status (getUsage s' usageId) = Reported
         \<and> rec_pricePerUnitSnapshot (getUsage s' usageId)
             = cfg_pricePerUnit (getApiConfig s apiId)
         \<and> rec_apiId (getUsage s' usageId) = apiId
         \<and> rec_consumer (getUsage s' usageId) = consumer
         \<and> rec_units (getUsage s' usageId) = units"
    using r le sub D(5) D(8) D(9)
    by (simp add: prepaidUnits_def getUsage_def getApiConfig_def)
qed

theorem reportUsage_debits_and_records_witness:
  "(\<exists>err. transact demoToken lengthHash (env_at 3 9) (ReportUsage 5 2 10 ''ref2'') demoSettled
            = (Inl err, demoSettled))
   \<and> prepaidUnits (fst demoSettled) 5 2 = 4
   \<and> (\<exists>s' t'. transact demoToken lengthHash (env_at 3 3) (ReportUsage 5 2 1 ''ref1'') demoPrepaid
                 = (Inr (Some 152), (s', t'))
         \<and> unat (prepaidUnits (fst demoPrepaid) 5 2) = 5
         \<and> unat (prepaidUnits s' 5 2) = 4
         \<and> rec_status (getUsage s' 152) = Reported
         \<and> rec_pricePerUnitSnapshot (getUsage s' 152) = 2)"
proof -
  have few: "unat (prepaidUnits (fst demoSettled) 5 2) < unat (10 :: uint256)"
    by (simp add: ledger_defs)
  have fails: "\<exists>err. transact demoToken lengthHash (env_at 3 9) (ReportUsage 5 2 10 ''ref2'')
                 (fst demoSettled, snd demoSettled) = (Inl err, (fst demoSettled, snd demoSettled))"
    using reportUsage_debits_and_records [where s = "fst demoSettled" and t = "snd demoSettled"
        and apiId = 5 and consumer = 2 and units = 10 and erc = demoToken
        and ?keccak256.0 = lengthHash and e = "env_at 3 9" and offchainRef = "''ref2''"] few
    by blast
  have bal: "prepaidUnits (fst demoSettled) 5 2 = 4" "unat (prepaidUnits (fst demoPrepaid) 5 2) = 5"
    by (simp_all add: ledger_defs)
  have "\<exists>s' t'. transact demoToken lengthHash (env_at 3 3) (ReportUsage 5 2 1 ''ref1'')
          (fst demoPrepaid, snd demoPrepaid) = (Inr (Some 152), (s', t'))"
    by (simp add: ledger_defs)
  then obtain s' t' where ok: "transact demoToken lengthHash (env_at 3 3)
      (ReportUsage 5 2 1 ''ref1'') (fst demoPrepaid, snd demoPrepaid) = (Inr (Some 152), (s', t'))"
    by blast
  from reportUsage_debits_and_records [where s = "fst demoPrepaid" and t = "snd demoPrepaid"
        and apiId = 5 and consumer = 2 and units = 1 and erc = demoToken
        and ?keccak256.0 = lengthHash and e = "env_at 3 3" and offchainRef = "''ref1''"
        and r = "Some 152" and s' = s' and t' = t'] ok
  have "unat (prepaidUnits s' 5 2) = unat (prepaidUnits (fst demoPrepaid) 5 2) - unat (1 :: uint256)
      \<and> rec_status (getUsage s' 152) = Reported
      \<and> rec_pricePerUnitSnapshot (getUsage s' 152) = cfg_pricePerUnit (getApiConfig (fst demoPrepaid) 5)"
    by auto
  moreover have "cfg_pricePerUnit (getApiConfig (fst demoPrepaid) 5) = 2"
    by (simp add: ledger_defs)
  ultimately have "unat (prepaidUnits s' 5 2) = 4 \<and> rec_status (getUsage s' 152) = Reported
      \<and> rec_pricePerUnitSnapshot (getUsage s' 152) = 2"
    using bal(2) by simp
  with ok fails bal show ?thesis
    by auto
qed

text \<open>
  C2. \<^verbatim>\<open>settleUsage(usageId)\<close> succeeds at most once. A successful call finds the record
  Reported, leaves it Settled, and increases the revenue balance of the record's API by
  exactly \<open>units \<times> priceSnapshot\<close> of the record (checked arithmetic: no wrap-around).
  After it, whatever transactions follow, every further \<^verbatim>\<open>settleUsage\<close> of the same
  identifier fails with \<open>InvalidState\<close> and changes nothing. And if the record was created
  by a \<^verbatim>\<open>reportUsage\<close> for \<open>units\<close> of \<open>apiId\<close>, then whatever transactions came between
  the report and the settlement (changes of the price included), the credit is \<open>units\<close>
  times the price the API had when the usage was reported.
\<close>

theorem settleUsage_once_at_snapshot:
  assumes ok: "transact erc keccak256 e (SettleUsage usageId) w = (Inr r, w')"
  shows "(rec_status (getUsage (fst w) usageId) = Reported
          \<and> rec_status (getUsage (fst w') usageId) = Settled
          \<and> unat (providerBalance (fst w') (rec_apiId (getUsage (fst w) usageId)))
              = unat (providerBalance (fst w) (rec_apiId (getUsage (fst w) usageId)))
                + unat (rec_units (getUsage (fst w) usageId))
                  * unat (rec_pricePerUnitSnapshot (getUsage (fst w) usageId)))
     \<and> (\<forall>cs e2. \<exists>err.
           transact erc keccak256 e2 (SettleUsage usageId) (transact_all erc keccak256 cs w')
             = (Inl err, transact_all erc keccak256 cs w')
           \<and> kind err = InvalidState)
     \<and> (\<forall>e0 apiId consumer units offchainRef w0 w1 cs.
           transact erc keccak256 e0 (ReportUsage apiId consumer units offchainRef) w0
             = (Inr (Some usageId), w1)
           \<and> w = transact_all erc keccak256 cs w1 \<longrightarrow>
           unat (providerBalance (fst w') apiId)
             = unat (providerBalance (fst w) apiId)
               + unat units * unat (cfg_pricePerUnit (getApiConfig (fst w0) apiId)))"
proof -
  note D = settleUsage_InrD [OF transact_SettleUsage_InrD(1) [OF ok]]
  from D(3) have settled: "rec_status (getUsage (fst w') usageId) = Settled"
    by (simp add: getUsage_def)
  from D(1) have reported: "rec_status (getUsage (fst w) usageId) = Reported"
    by (simp add: getUsage_def)
  have credit: "unat (providerBalance (fst w') (rec_apiId (getUsage (fst w) usageId)))
              = unat (providerBalance (fst w) (rec_apiId (getUsage (fst w) usageId)))
                + unat (rec_units (getUsage (fst w) usageId))
                  * unat (rec_pricePerUnitSnapshot (getUsage (fst w) usageId))"
    using D(2) by (simp add: getUsage_def providerBalance_def)
  have again: "\<exists>err.
           transact erc keccak256 e2 (SettleUsage usageId) (transact_all erc keccak256 cs w')
             = (Inl err, transact_all erc keccak256 cs w')
           \<and> kind err = InvalidState" for cs e2
    using settled_stays_unsettleable [OF settled] by (intro exI [of _ UsageNotSettleable]) simp
  have snapshot: "unat (providerBalance (fst w') apiId)
             = unat (providerBalance (fst w) apiId)
               + unat units * unat (cfg_pricePerUnit (getApiConfig (fst w0) apiId))"
    if rep: "transact erc keccak256 e0 (ReportUsage apiId consumer units offchainRef) w0
             = (Inr (Some usageId), w1)"
      and run: "w = transact_all erc keccak256 cs w1"
    for e0 apiId consumer units offchainRef w0 w1 cs
  proof -
    note R = reportUsage_InrD [OF transact_ReportUsage_InrD [OF rep]]
    have "usage_path (getUsage (fst w1) usageId) (getUsage (fst w) usageId)"
      unfolding run by (rule transact_all_usage_path)
    moreover from R(9) have "rec_status (getUsage (fst w1) usageId) = Reported"
      by (simp add: getUsage_def)
    ultimately have "getUsage (fst w) usageId = getUsage (fst w1) usageId"
      using reported by (auto simp: usage_path_def)
    with R(9) have "rec_apiId (getUsage (fst w) usageId) = apiId"
      "rec_units (getUsage (fst w) usageId) = units"
      "rec_pricePerUnitSnapshot (getUsage (fst w) usageId)
         = cfg_pricePerUnit (getApiConfig (fst w0) apiId)"
      by (simp_all add: getUsage_def getApiConfig_def)
    with credit show ?thesis by simp
  qed
  from reported settled credit again snapshot show ?thesis
    by blast
qed

theorem settleUsage_once_at_snapshot_witness:
  "\<exists>w'. transact demoToken lengthHash (env_at 3 5) (SettleUsage 152) demoReported = (Inr None, w')
     \<and> cfg_pricePerUnit (getApiConfig (fst demoPrepaid) 5) = 2
     \<and> cfg_pricePerUnit (getApiConfig (fst demoReported) 5) = 9
     \<and> unat (providerBalance (fst demoReported) 5) = 0
     \<and> unat (providerBalance (fst w') 5) = 2
     \<and> (\<exists>err. transact demoToken lengthHash (env_at 3 6) (SettleUsage 152) w' = (Inl err, w')
           \<and> kind err = InvalidState)"
proof -
  have "\<exists>w'. transact demoToken lengthHash (env_at 3 5) (SettleUsage 152) demoReported
               = (Inr None, w')"
    by (simp add: ledger_defs)
  then obtain w' where ok: "transact demoToken lengthHash (env_at 3 5) (SettleUsage 152)
       demoReported = (Inr None, w')"
    by blast
  note T = settleUsage_once_at_snapshot [OF ok]
  have "fst (transact demoToken lengthHash (env_at 3 3) (ReportUsage 5 2 1 ''ref1'') demoPrepaid)
          = Inr (Some 152)"
    by (simp add: ledger_defs)
  then have rep: "transact demoToken lengthHash (env_at 3 3) (ReportUsage 5 2 1 ''ref1'') demoPrepaid
      = (Inr (Some 152),
         snd (transact demoToken lengthHash (env_at 3 3) (ReportUsage 5 2 1 ''ref1'') demoPrepaid))"
    by (simp add: prod_eq_iff)
  have vals: "cfg_pricePerUnit (getApiConfig (fst demoPrepaid) 5) = 2"
    "cfg_pricePerUnit (getApiConfig (fst demoReported) 5) = 9"
    "unat (providerBalance (fst demoReported) 5) = 0"
    by (simp_all add: ledger_defs)
  from T rep have "unat (providerBalance (fst w') 5)
      = unat (providerBalance (fst demoReported) 5)
        + unat (1 :: uint256) * unat (cfg_pricePerUnit (getApiConfig (fst demoPrepaid) 5))"
    unfolding demoReported_def by blast
  with vals have credited: "unat (providerBalance (fst w') 5) = 2"
    by simp
  from T have "\<exists>err. transact demoToken lengthHash (env_at 3 6) (SettleUsage 152)
        (transact_all demoToken lengthHash [] w') = (Inl err, transact_all demoToken lengthHash [] w')
      \<and> kind err = InvalidState"
    by blast
  then have "\<exists>err. transact demoToken lengthHash (env_at 3 6) (SettleUsage 152) w' = (Inl err, w')
      \<and> kind err = InvalidState"
    by simp
  with ok vals credited show ?thesis
    by blast
qed

text \<open>
  C3. Every ledger mutation is atomic on error. A transaction that fails, whatever the
  call and the reason, leaves the ledger and the token as they were. In particular:
  \<^verbatim>\<open>reportUsage\<close> for more units than the consumer has fails with
  \<open>InsufficientPrepaidUnits\<close> and the balance stays; \<^verbatim>\<open>reportUsage\<close> that meets an
  existing identifier fails with \<open>UsageAlreadyExists\<close> and the debit it had made is
  undone; \<^verbatim>\<open>prepay\<close> credits nothing unless the token's \<^verbatim>\<open>transferFrom\<close> returned
  true; \<^verbatim>\<open>withdrawProviderRevenue\<close> decrements nothing unless the token's
  \<^verbatim>\<open>transfer\<close> returned true, and a transfer that reverts or returns false after all
  the checks have passed makes the withdrawal fail with kind \<open>TransferFailed\<close>.
\<close>

theorem failed_mutation_changes_nothing:
  "(\<forall>c err. fst (transact erc keccak256 e c (s, t)) = Inl err \<longrightarrow>
       snd (transact erc keccak256 e c (s, t)) = (s, t))
   \<and> (cfg_provider (getApiConfig s apiId) \<noteq> 0
        \<and> unat (prepaidUnits s apiId consumer) < unat units \<longrightarrow>
       transact erc keccak256 e (ReportUsage apiId consumer units offchainRef) (s, t)
         = (Inl InsufficientPrepaidUnits, (s, t)))
   \<and> (cfg_provider (getApiConfig s apiId) \<noteq> 0 \<and> 0 < units' \<and> units' \<le> prepaidUnits s apiId consumer
        \<and> rec_status (getUsage s (keccak256 (encodePacked apiId consumer units' offchainRef'
              (block_timestamp e) (block_number e)))) \<noteq> NoneStatus \<longrightarrow>
       transact erc keccak256 e (ReportUsage apiId consumer units' offchainRef') (s, t)
         = (Inl UsageAlreadyExists, (s, t)))
   \<and> ((\<forall>t'. transferFrom erc (cfg_paymentToken (getApiConfig s apiId)) (this e) (msg_sender e)
               (this e) (cfg_pricePerUnit (getApiConfig s apiId) * units) t
             \<noteq> CallReturned True t') \<longrightarrow>
       (\<exists>err. transact erc keccak256 e (Prepay apiId units consumer) (s, t) = (Inl err, (s, t))))
   \<and> ((\<forall>t'. transfer erc (cfg_paymentToken (getApiConfig s apiId)) (this e) dest amount t
             \<noteq> CallReturned True t') \<longrightarrow>
       (\<exists>err. transact erc keccak256 e (WithdrawProviderRevenue apiId amount dest) (s, t)
                = (Inl err, (s, t))))
   \<and> ((\<forall>t'. transfer erc (cfg_paymentToken (getApiConfig s apiId)) (this e) dest amount t
             \<noteq> CallReturned True t')
        \<and> cfg_provider (getApiConfig s apiId) = msg_sender e \<and> dest \<noteq> 0 \<and> 0 < amount
        \<and> amount \<le> providerBalance s apiId \<longrightarrow>
       (\<exists>err. transact erc keccak256 e (WithdrawProviderRevenue apiId amount dest) (s, t)
                = (Inl err, (s, t))
          \<and> kind err = TransferFailed))"
proof (intro conjI allI impI)
  fix c err
  assume "fst (transact erc keccak256 e c (s, t)) = Inl err"
  then show "snd (transact erc keccak256 e c (s, t)) = (s, t)"
    by (simp add: transact_InlD)
next
  assume h: "cfg_provider (getApiConfig s apiId) \<noteq> 0
        \<and> unat (prepaidUnits s apiId consumer) < unat units"
  then have "0 < units"
    by (simp add: word_less_nat_alt)
  with h have "reportUsage keccak256 e apiId consumer units offchainRef s
      = Inl InsufficientPrepaidUnits"
    by (simp add: reportUsage_def Let_def getApiConfig_def prepaidUnits_def word_le_nat_alt)
  then show "transact erc keccak256 e (ReportUsage apiId consumer units offchainRef) (s, t)
         = (Inl InsufficientPrepaidUnits, (s, t))"
    by (simp add: transact_def)
next
  assume "cfg_provider (getApiConfig s apiId) \<noteq> 0 \<and> 0 < units'
        \<and> units' \<le> prepaidUnits s apiId consumer
        \<and> rec_status (getUsage s (keccak256 (encodePacked apiId consumer units' offchainRef'
              (block_timestamp e) (block_number e)))) \<noteq> NoneStatus"
  then have "reportUsage keccak256 e apiId consumer units' offchainRef' s = Inl UsageAlreadyExists"
    by (simp add: reportUsage_def Let_def getApiConfig_def prepaidUnits_def getUsage_def
        checked_sub_le)
  then show "transact erc keccak256 e (ReportUsage apiId consumer units' offchainRef') (s, t)
         = (Inl UsageAlreadyExists, (s, t))"
    by (simp add: transact_def)
next
  assume "\<forall>t'. transferFrom erc (cfg_paymentToken (getApiConfig s apiId)) (this e) (msg_sender e)
               (this e) (cfg_pricePerUnit (getApiConfig s apiId) * units) t
             \<noteq> CallReturned True t'"
  then have "\<exists>err. prepay erc e apiId units consumer (s, t) = Inl err"
    unfolding getApiConfig_def by (rule prepay_without_transfer)
  then show "\<exists>err. transact erc keccak256 e (Prepay apiId units consumer) (s, t) = (Inl err, (s, t))"
    by (auto simp: transact_def)
next
  assume "\<forall>t'. transfer erc (cfg_paymentToken (getApiConfig s apiId)) (this e) dest amount t
             \<noteq> CallReturned True t'"
  then have "\<exists>err. withdrawProviderRevenue erc e apiId amount dest (s, t) = Inl err"
    unfolding getApiConfig_def by (rule withdraw_without_transfer)
  then show "\<exists>err. transact erc keccak256 e (WithdrawProviderRevenue apiId amount dest) (s, t)
                = (Inl err, (s, t))"
    by (auto simp: transact_def)
next
  assume "(\<forall>t'. transfer erc (cfg_paymentToken (getApiConfig s apiId)) (this e) dest amount t
             \<noteq> CallReturned True t')
        \<and> cfg_provider (getApiConfig s apiId) = msg_sender e \<and> dest \<noteq> 0 \<and> 0 < amount
        \<and> amount \<le> providerBalance s apiId"
  then have "\<exists>err. withdrawProviderRevenue erc e apiId amount dest (s, t) = Inl err
            \<and> kind err = TransferFailed"
    unfolding getApiConfig_def providerBalance_def
    by (intro withdraw_transfer_failed) simp_all
  then show "\<exists>err. transact erc keccak256 e (WithdrawProviderRevenue apiId amount dest) (s, t)
                = (Inl err, (s, t))
          \<and> kind err = TransferFailed"
    by (auto simp: transact_def)
qed

theorem failed_mutation_changes_nothing_witness:
  "transact refusingToken lengthHash (env_at 1 9) (ReportUsage 5 2 10 ''ref2'') demoSettled
     = (Inl InsufficientPrepaidUnits, demoSettled)
   \<and> prepaidUnits (fst demoSettled) 5 2 = 4
   \<and> transact refusingToken lengthHash (env_at 1 9) (ReportUsage 5 2 1 ''ref1'') demoSettled
     = (Inl UsageAlreadyExists, demoSettled)
   \<and> (\<exists>err. transact refusingToken lengthHash (env_at 1 9) (Prepay 5 10 2) demoSettled
              = (Inl err, demoSettled))
   \<and> providerBalance (fst demoSettled) 5 = 2
   \<and> (\<exists>err. transact refusingToken lengthHash (env_at 1 9) (WithdrawProviderRevenue 5 2 1) demoSettled
              = (Inl err, demoSettled) \<and> kind err = TransferFailed)
   \<and> snd (transact refusingToken lengthHash (env_at 1 9) (WithdrawProviderRevenue 5 2 1) demoSettled)
       = demoSettled"
proof -
  have vals: "prepaidUnits (fst demoSettled) 5 2 = 4" "providerBalance (fst demoSettled) 5 = 2"
    by (simp_all add: ledger_defs)
  have h: "cfg_provider (getApiConfig (fst demoSettled) 5) \<noteq> 0"
    "unat (prepaidUnits (fst demoSettled) 5 2) < unat (10 :: uint256)"
    "0 < (1 :: uint256)" "1 \<le> prepaidUnits (fst demoSettled) 5 2"
    "rec_status (getUsage (fst demoSettled) (lengthHash (encodePacked 5 2 1 ''ref1''
        (block_timestamp (env_at 1 9)) (block_number (env_at 1 9))))) \<noteq> NoneStatus"
    "\<forall>t'. transferFrom refusingToken (cfg_paymentToken (getApiConfig (fst demoSettled) 5))
        (this (env_at 1 9)) (msg_sender (env_at 1 9)) (this (env_at 1 9))
        (cfg_pricePerUnit (getApiConfig (fst demoSettled) 5) * 10) (snd demoSettled)
        \<noteq> CallReturned True t'"
    "\<forall>t'. transfer refusingToken (cfg_paymentToken (getApiConfig (fst demoSettled) 5))
        (this (env_at 1 9)) 1 2 (snd demoSettled) \<noteq> CallReturned True t'"
    "cfg_provider (getApiConfig (fst demoSettled) 5) = msg_sender (env_at 1 9)"
    "(1 :: address) \<noteq> 0" "0 < (2 :: uint256)" "2 \<le> providerBalance (fst demoSettled) 5"
    by (simp_all add: ledger_defs)
  note T = failed_mutation_changes_nothing [where s = "fst demoSettled" and t = "snd demoSettled"
      and erc = refusingToken and ?keccak256.0 = lengthHash and e = "env_at 1 9" and apiId = 5
      and consumer = 2 and units = 10 and offchainRef = "''ref2''" and units' = 1
      and offchainRef' = "''ref1''" and amount = 2 and dest = 1, unfolded prod.collapse]
  from T h(1,2) have a: "transact refusingToken lengthHash (env_at 1 9)
      (ReportUsage 5 2 10 ''ref2'') demoSettled = (Inl InsufficientPrepaidUnits, demoSettled)"
    by blast
  from T h(1,3,4,5) have b: "transact refusingToken lengthHash (env_at 1 9)
      (ReportUsage 5 2 1 ''ref1'') demoSettled = (Inl UsageAlreadyExists, demoSettled)"
    by blast
  from T h(6) have c: "\<exists>err. transact refusingToken lengthHash (env_at 1 9) (Prepay 5 10 2)
      demoSettled = (Inl err, demoSettled)"
    by blast
  from T h(7,8,9,10,11) have d: "\<exists>err. transact refusingToken lengthHash (env_at 1 9)
      (WithdrawProviderRevenue 5 2 1) demoSettled = (Inl err, demoSettled)
      \<and> kind err = TransferFailed"
    by blast
  then obtain err where "fst (transact refusingToken lengthHash (env_at 1 9)
      (WithdrawProviderRevenue 5 2 1) demoSettled) = Inl err"
    by auto
  with T have f: "snd (transact refusingToken lengthHash (env_at 1 9)
      (WithdrawProviderRevenue 5 2 1) demoSettled) = demoSettled"
    by blast
  from vals a b c d f show ?thesis
    by blast
qed

text \<open>
  C4 (amended). \<^verbatim>\<open>withdrawProviderRevenue\<close> fails with \<open>Unauthorized\<close> whenever the
  caller is not the provider stored for the API; for an unregistered API the stored
  provider is the zero address, so every caller but the zero address is refused this way,
  and the function has no other registration check. \<^verbatim>\<open>updateApiConfig\<close> of a registered
  API fails with \<open>Unauthorized\<close> when the caller is not its provider. A withdrawal by
  the provider of a registered API fails with \<open>InvalidArgument\<close> when the amount is zero or
  exceeds the withdrawable balance.
\<close>

theorem provider_gate_then_amount_check:
  "(msg_sender e \<noteq> cfg_provider (getApiConfig s apiId) \<longrightarrow>
      (\<exists>err. transact erc keccak256 e (WithdrawProviderRevenue apiId amount dest) (s, t)
               = (Inl err, (s, t))
         \<and> kind err = Unauthorized))
   \<and> (cfg_provider (getApiConfig s apiId) \<noteq> 0
        \<and> msg_sender e \<noteq> cfg_provider (getApiConfig s apiId) \<longrightarrow>
      (\<exists>err. transact erc keccak256 e (UpdateApiConfig apiId pricePerUnit metadataURI active) (s, t)
               = (Inl err, (s, t))
         \<and> kind err = Unauthorized))
   \<and> (cfg_provider (getApiConfig s apiId) \<noteq> 0
        \<and> msg_sender e' = cfg_provider (getApiConfig s apiId)
        \<and> (amount = 0 \<or> unat (providerBalance s apiId) < unat amount) \<longrightarrow>
      (\<exists>err. transact erc keccak256 e' (WithdrawProviderRevenue apiId amount dest) (s, t)
               = (Inl err, (s, t))
         \<and> kind err = InvalidArgument))"
proof (intro conjI impI)
  assume "msg_sender e \<noteq> cfg_provider (getApiConfig s apiId)"
  then have "withdrawProviderRevenue erc e apiId amount dest (s, t) = Inl NotApiProvider"
    by (auto simp: withdrawProviderRevenue_def onlyProvider_def getApiConfig_def)
  then show "\<exists>err. transact erc keccak256 e (WithdrawProviderRevenue apiId amount dest) (s, t)
               = (Inl err, (s, t)) \<and> kind err = Unauthorized"
    by (simp add: transact_def)
next
  assume "cfg_provider (getApiConfig s apiId) \<noteq> 0
        \<and> msg_sender e \<noteq> cfg_provider (getApiConfig s apiId)"
  then have "updateApiConfig e apiId pricePerUnit metadataURI active s = Inl NotApiProvider"
    by (auto simp: updateApiConfig_def onlyProvider_def getApiConfig_def)
  then show "\<exists>err. transact erc keccak256 e (UpdateApiConfig apiId pricePerUnit metadataURI active)
                (s, t) = (Inl err, (s, t)) \<and> kind err = Unauthorized"
    by (simp add: transact_def)
next
  assume h: "cfg_provider (getApiConfig s apiId) \<noteq> 0
        \<and> msg_sender e' = cfg_provider (getApiConfig s apiId)
        \<and> (amount = 0 \<or> unat (providerBalance s apiId) < unat amount)"
  then have bad: "\<not> (0 < amount \<and> amount \<le> s_providerBalances s apiId)"
    by (auto simp: providerBalance_def word_le_nat_alt)
  have "\<exists>err. withdrawProviderRevenue erc e' apiId amount dest (s, t) = Inl err
          \<and> kind err = InvalidArgument"
  proof (cases "dest = 0")
    case True
    with h show ?thesis
      by (simp add: withdrawProviderRevenue_def onlyProvider_def getApiConfig_def)
  next
    case False
    with h bad show ?thesis
      by (simp add: withdrawProviderRevenue_def onlyProvider_def getApiConfig_def Let_def)
  qed
  then show "\<exists>err. transact erc keccak256 e' (WithdrawProviderRevenue apiId amount dest) (s, t)
               = (Inl err, (s, t)) \<and> kind err = InvalidArgument"
    by (auto simp: transact_def)
qed

theorem provider_gate_then_amount_check_witness:
  "(\<exists>err. transact demoToken lengthHash (env_at 2 9) (WithdrawProviderRevenue 5 3 1) demoSettled
            = (Inl err, demoSettled) \<and> kind err = Unauthorized)
   \<and> (\<exists>err. transact demoToken lengthHash (env_at 2 9) (UpdateApiConfig 5 1 ''cheap'' True) demoSettled
            = (Inl err, demoSettled) \<and> kind err = Unauthorized)
   \<and> providerBalance (fst demoSettled) 5 = 2
   \<and> (\<exists>err. transact demoToken lengthHash (env_at 1 9) (WithdrawProviderRevenue 5 3 1) demoSettled
            = (Inl err, demoSettled) \<and> kind err = InvalidArgument)"
proof -
  have h: "msg_sender (env_at 2 9) \<noteq> cfg_provider (getApiConfig (fst demoSettled) 5)"
    "cfg_provider (getApiConfig (fst demoSettled) 5) \<noteq> 0"
    "msg_sender (env_at 1 9) = cfg_provider (getApiConfig (fst demoSettled) 5)"
    "unat (providerBalance (fst demoSettled) 5) < unat (3 :: uint256)"
    "providerBalance (fst demoSettled) 5 = 2"
    by (simp_all add: ledger_defs)
  note T = provider_gate_then_amount_check [where s = "fst demoSettled" and t = "snd demoSettled"
      and erc = demoToken and ?keccak256.0 = lengthHash and e = "env_at 2 9" and e' = "env_at 1 9"
      and apiId = 5 and amount = 3 and dest = 1 and pricePerUnit = 1 and metadataURI = "''cheap''"
      and active = True, unfolded prod.collapse]
  from T h(1) have a: "\<exists>err. transact demoToken lengthHash (env_at 2 9)
      (WithdrawProviderRevenue 5 3 1) demoSettled = (Inl err, demoSettled) \<and> kind err = Unauthorized"
    by blast
  from T h(1,2) have b: "\<exists>err. transact demoToken lengthHash (env_at 2 9)
      (UpdateApiConfig 5 1 ''cheap'' True) demoSettled = (Inl err, demoSettled)
      \<and> kind err = Unauthorized"
    by blast
  from T h(2,3,4) have c: "\<exists>err. transact demoToken lengthHash (env_at 1 9)
      (WithdrawProviderRevenue 5 3 1) demoSettled = (Inl err, demoSettled)
      \<and> kind err = InvalidArgument"
    by blast
  from a b c h(5) show ?thesis
    by blast
qed

text \<open>
  C4 as stated asks for \<open>NotFound\<close> on an unregistered API. On the initial ledger, where
  API 5 is unregistered, caller 1 gets "Not API provider" from both functions: the
  modifier \<^verbatim>\<open>onlyProvider\<close> runs first.
\<close>

theorem unregistered_api_not_found_counterexample:
  "cfg_provider (getApiConfig (fst demoStart) 5) = 0
   \<and> transact demoToken lengthHash (env_at 1 1) (WithdrawProviderRevenue 5 1 1) demoStart
       = (Inl NotApiProvider, demoStart)
   \<and> transact demoToken lengthHash (env_at 1 1) (UpdateApiConfig 5 2 ''meta'' True) demoStart
       = (Inl NotApiProvider, demoStart)
   \<and> kind NotApiProvider = Unauthorized
   \<and> kind NotApiProvider \<noteq> NotFound"
  by (simp add: ledger_defs)

text \<open>
  C5. Every registered API has a positive price. \<^verbatim>\<open>registerApi\<close> does reject the price 0,
  but \<^verbatim>\<open>updateApiConfig\<close> stores whatever price the provider passes: after provider 1
  registers API 5 at price 2 and updates it to price 0, the API is registered and its
  price is 0.
\<close>

theorem updateApiConfig_accepts_zero_price:
  "transact demoToken lengthHash (env_at 1 1) (RegisterApi 5 7 0 ''meta'') demoStart
     = (Inl InvalidPrice, demoStart)
   \<and> cfg_provider (getApiConfig (fst (transact_all demoToken lengthHash
        [(env_at 1 1, RegisterApi 5 7 2 ''meta''),
         (env_at 1 2, UpdateApiConfig 5 0 ''meta'' True)] demoStart)) 5) = 1
   \<and> cfg_pricePerUnit (getApiConfig (fst (transact_all demoToken lengthHash
        [(env_at 1 1, RegisterApi 5 7 2 ''meta''),
         (env_at 1 2, UpdateApiConfig 5 0 ''meta'' True)] demoStart)) 5) = 0"
  by (simp add: ledger_defs)

text \<open>
  C6 (amended). The checks run in the order of the source. A missing or invalid consumer
  is reported as such, and with a valid consumer a missing (falsy) nonce, deadline or
  signature is reported as such, whatever the deadline. When the consumer is a valid
  address and nonce, deadline and signature are all present, a deadline strictly before
  the current time (in seconds) makes the verification fail with "Signature expired",
  whatever the signature and whatever the library would say of it.
\<close>

theorem expired_after_presence_checks:
  "(\<not> (truthy (getProp body ''consumer'') \<and> isAddress rt (getProp body ''consumer'')) \<longrightarrow>
      verifySignedRequest rt eip712Domain dateNow body expectedApiId = Inl MissingOrInvalidConsumer)
   \<and> (truthy (getProp body ''consumer'') \<and> isAddress rt (getProp body ''consumer'')
        \<and> \<not> (truthy (getProp body ''nonce'') \<and> truthy (getProp body ''deadline'')
              \<and> truthy (getProp body ''signature'')) \<longrightarrow>
      verifySignedRequest rt eip712Domain dateNow body expectedApiId
        = Inl MissingNonceDeadlineSignature)
   \<and> (truthy (getProp body ''consumer'') \<and> isAddress rt (getProp body ''consumer'')
        \<and> truthy (getProp body ''nonce'') \<and> truthy (getProp body ''deadline'')
        \<and> truthy (getProp body ''signature'')
        \<and> num_lt (toNumber rt (getProp body ''deadline'')) (Finite (of_int (dateNow div 1000))) \<longrightarrow>
      verifySignedRequest rt eip712Domain dateNow body expectedApiId = Inl SignatureExpired)"
  unfolding verifySignedRequest_def Let_def getProp_body_or_empty
  by auto

theorem expired_after_presence_checks_witness:
  "verifySignedRequest demoRuntime demoDomain 5000
      (expiredBody (String ''nobody'') (Number (Finite 1))) ''api'' = Inl MissingOrInvalidConsumer
   \<and> verifySignedRequest demoRuntime demoDomain 5000
      (expiredBody demoConsumer Undefined) ''api'' = Inl MissingNonceDeadlineSignature
   \<and> verifySignedRequest demoRuntime demoDomain 5000
      (expiredBody demoConsumer (Number (Finite 1))) ''api'' = Inl SignatureExpired
   \<and> verifySignedRequest rejectingRuntime demoDomain 5000
      (expiredBody demoConsumer (Number (Finite 1))) ''api'' = Inl SignatureExpired"
proof -
  have a: "\<not> (truthy (getProp (expiredBody (String ''nobody'') (Number (Finite 1))) ''consumer'')
       \<and> isAddress demoRuntime
           (getProp (expiredBody (String ''nobody'') (Number (Finite 1))) ''consumer''))"
    by (simp add: gateway_defs)
  have b: "truthy (getProp (expiredBody demoConsumer Undefined) ''consumer'')
       \<and> isAddress demoRuntime (getProp (expiredBody demoConsumer Undefined) ''consumer'')
       \<and> \<not> (truthy (getProp (expiredBody demoConsumer Undefined) ''nonce'')
            \<and> truthy (getProp (expiredBody demoConsumer Undefined) ''deadline'')
            \<and> truthy (getProp (expiredBody demoConsumer Undefined) ''signature''))"
    by (simp add: gateway_defs)
  have c: "truthy (getProp (expiredBody demoConsumer (Number (Finite 1))) ''consumer'')
       \<and> isAddress rt' (getProp (expiredBody demoConsumer (Number (Finite 1))) ''consumer'')
       \<and> truthy (getProp (expiredBody demoConsumer (Number (Finite 1))) ''nonce'')
       \<and> truthy (getProp (expiredBody demoConsumer (Number (Finite 1))) ''deadline'')
       \<and> truthy (getProp (expiredBody demoConsumer (Number (Finite 1))) ''signature'')
       \<and> num_lt (toNumber rt' (getProp (expiredBody demoConsumer (Number (Finite 1))) ''deadline''))
           (Finite (of_int (5000 div 1000)))"
    if "rt' = demoRuntime \<or> rt' = rejectingRuntime" for rt'
    using that by (auto simp: gateway_defs)
  from expired_after_presence_checks [where rt = demoRuntime and eip712Domain = demoDomain
      and dateNow = 5000 and expectedApiId = "''api''"
      and body = "expiredBody (String ''nobody'') (Number (Finite 1))"] a
  have 1: "verifySignedRequest demoRuntime demoDomain 5000
      (expiredBody (String ''nobody'') (Number (Finite 1))) ''api'' = Inl MissingOrInvalidConsumer"
    by blast
  from expired_after_presence_checks [where rt = demoRuntime and eip712Domain = demoDomain
      and dateNow = 5000 and expectedApiId = "''api''"
      and body = "expiredBody demoConsumer Undefined"] b
  have 2: "verifySignedRequest demoRuntime demoDomain 5000
      (expiredBody demoConsumer Undefined) ''api'' = Inl MissingNonceDeadlineSignature"
    by blast
  from expired_after_presence_checks [where rt = demoRuntime and eip712Domain = demoDomain
      and dateNow = 5000 and expectedApiId = "''api''"
      and body = "expiredBody demoConsumer (Number (Finite 1))"] c [of demoRuntime]
  have 3: "verifySignedRequest demoRuntime demoDomain 5000
      (expiredBody demoConsumer (Number (Finite 1))) ''api'' = Inl SignatureExpired"
    by blast
  from expired_after_presence_checks [where rt = "rejectingRuntime"
      and eip712Domain = demoDomain and dateNow = 5000 and expectedApiId = "''api''"
      and body = "expiredBody demoConsumer (Number (Finite 1))"]
    c [of "rejectingRuntime"]
  have 4: "verifySignedRequest rejectingRuntime demoDomain 5000
      (expiredBody demoConsumer (Number (Finite 1))) ''api'' = Inl SignatureExpired"
    by blast
  from 1 2 3 4 show ?thesis by blast
qed

text \<open>
  C6 as stated asks for "Signature expired" whatever else is wrong. At time 5 s, with
  deadline 4, a body whose consumer is not an address fails with "Missing or invalid
  consumer", and a body with a valid consumer and no nonce fails with "Missing
  nonce/deadline/signature".
\<close>

theorem expired_is_not_checked_first_counterexample:
  "num_lt (toNumber demoRuntime (getProp (expiredBody (String ''nobody'') (Number (Finite 1)))
       ''deadline'')) (Finite (of_int (5000 div 1000)))
   \<and> verifySignedRequest demoRuntime demoDomain 5000
        (expiredBody (String ''nobody'') (Number (Finite 1))) ''api''
       = Inl MissingOrInvalidConsumer
   \<and> num_lt (toNumber demoRuntime (getProp (expiredBody demoConsumer Undefined) ''deadline''))
       (Finite (of_int (5000 div 1000)))
   \<and> verifySignedRequest demoRuntime demoDomain 5000 (expiredBody demoConsumer Undefined) ''api''
       = Inl MissingNonceDeadlineSignature
   \<and> MissingOrInvalidConsumer \<noteq> SignatureExpired
   \<and> MissingNonceDeadlineSignature \<noteq> SignatureExpired"
  by (simp add: gateway_defs)

text \<open>
  C7. A successful \<^verbatim>\<open>prepay(apiId, units, consumer)\<close> was made on a registered, active
  API with \<open>units > 0\<close>; it increases the prepaid units of the consumer for the API by
  exactly \<open>units\<close>, and the token's \<^verbatim>\<open>transferFrom\<close> was called once, from the caller
  to the ledger, for exactly \<open>pricePerUnit \<times> units\<close> at the price the API has in the
  state the call runs in, and returned true; the token state after the call is the one
  that transfer produced.
\<close>

theorem prepay_credits_units_at_current_price:
  assumes "transact erc keccak256 e (Prepay apiId units consumer) (s, t) = (Inr r, (s', t'))"
  shows "cfg_provider (getApiConfig s apiId) \<noteq> 0 \<and> cfg_active (getApiConfig s apiId)
     \<and> 0 < unat units
     \<and> unat (prepaidUnits s' apiId consumer) = unat (prepaidUnits s apiId consumer) + unat units
     \<and> (\<exists>amount. unat amount = unat (cfg_pricePerUnit (getApiConfig s apiId)) * unat units
           \<and> transferFrom erc (cfg_paymentToken (getApiConfig s apiId)) (this e) (msg_sender e)
                (this e) amount t = CallReturned True t')"
proof -
  from assms have "run erc keccak256 e (Prepay apiId units consumer) (s, t) = Inr (r, s', t')"
    by (rule transact_InrD)
  then have p: "prepay erc e apiId units consumer (s, t) = Inr (s', t')"
    by (auto split: sum.splits)
  note D = prepay_InrD [OF p]
  from D(3) have "0 < unat units"
    by (simp add: word_less_nat_alt)
  moreover from D(7) D(8)
  have "unat (prepaidUnits s' apiId consumer) = unat (prepaidUnits s apiId consumer) + unat units"
    by (simp add: prepaidUnits_def)
  moreover from D(5) D(6)
  have "\<exists>amount. unat amount = unat (cfg_pricePerUnit (getApiConfig s apiId)) * unat units
           \<and> transferFrom erc (cfg_paymentToken (getApiConfig s apiId)) (this e) (msg_sender e)
                (this e) amount t = CallReturned True t'"
    unfolding getApiConfig_def by blast
  ultimately show ?thesis
    using D(1) D(2) by (simp add: getApiConfig_def)
qed

theorem prepay_credits_units_at_current_price_witness:
  "\<exists>s' t'. transact demoToken lengthHash (env_at 2 3) (Prepay 5 5 2) demoRepriced
              = (Inr None, (s', t'))
     \<and> unat (prepaidUnits (fst demoRepriced) 5 2) = 0
     \<and> unat (prepaidUnits s' 5 2) = 5
     \<and> snd demoRepriced 7 2 = 100
     \<and> t' 7 2 = 85 \<and> t' 7 1000 = 15"
proof -
  have "\<exists>s' t'. transact demoToken lengthHash (env_at 2 3) (Prepay 5 5 2)
          (fst demoRepriced, snd demoRepriced) = (Inr None, (s', t'))"
    by (simp add: ledger_defs)
  then obtain s' t' where ok: "transact demoToken lengthHash (env_at 2 3) (Prepay 5 5 2)
      (fst demoRepriced, snd demoRepriced) = (Inr None, (s', t'))"
    by blast
  have before: "unat (prepaidUnits (fst demoRepriced) 5 2) = 0" "snd demoRepriced 7 2 = 100"
    "cfg_pricePerUnit (getApiConfig (fst demoRepriced) 5) = 3"
    "cfg_paymentToken (getApiConfig (fst demoRepriced) 5) = 7"
    by (simp_all add: ledger_defs)
  from prepay_credits_units_at_current_price [OF ok] before
  obtain amount where am: "unat amount = 3 * 5"
    and tr: "transferFrom demoToken 7 (this (env_at 2 3)) (msg_sender (env_at 2 3))
               (this (env_at 2 3)) amount (snd demoRepriced) = CallReturned True t'"
    and un: "unat (prepaidUnits s' 5 2) = 5"
    by auto
  from am have "of_nat (unat amount) = (of_nat (3 * 5) :: uint256)"
    by (rule arg_cong)
  then have "amount = 15"
    by simp
  with tr have "t' 7 2 = 85 \<and> t' 7 1000 = 15"
    by (auto simp: ledger_defs split: if_splits)
  with ok un before show ?thesis by auto
qed

text \<open>
  C8. For every \<^verbatim>\<open>usageId\<close>, the status of its usage record only ever moves along
  None, Reported, Settled. One transaction, whatever the call, the caller and the
  outcome, leaves the record as it is, creates it as Reported where there was none, or
  turns Reported into Settled and keeps every other field. Hence over any sequence of
  transactions a Settled record keeps all its fields, a Reported record keeps all its
  fields but the status, which can only become Settled, no record is deleted, and the
  status never moves backwards.
\<close>

theorem usage_status_only_advances:
  "usage_step (getUsage (fst w) usageId)
     (getUsage (fst (snd (transact erc keccak256 e c w))) usageId)
   \<and> usage_path (getUsage (fst w) usageId)
       (getUsage (fst (transact_all erc keccak256 cs w)) usageId)
   \<and> rank (rec_status (getUsage (fst w) usageId))
       \<le> rank (rec_status (getUsage (fst (transact_all erc keccak256 cs w)) usageId))"
  by (simp add: transact_usage_step transact_all_usage_path usage_path_rank)

theorem usage_status_only_advances_witness:
  "rec_status (getUsage (fst demoSettled) 152) = Settled
   \<and> getUsage (fst (transact_all demoToken lengthHash
        [(env_at 3 5, SettleUsage 152),
         (env_at 1 6, UpdateApiConfig 5 9 ''other'' False),
         (env_at 1 7, WithdrawProviderRevenue 5 2 1),
         (env_at 3 8, ReportUsage 5 2 1 ''ref1'')] demoSettled)) 152
     = getUsage (fst demoSettled) 152"
proof -
  have st: "rec_status (getUsage (fst demoSettled) 152) = Settled"
    by (simp add: ledger_defs)
  have "usage_path (getUsage (fst demoSettled) 152)
     (getUsage (fst (transact_all demoToken lengthHash
        [(env_at 3 5, SettleUsage 152),
         (env_at 1 6, UpdateApiConfig 5 9 ''other'' False),
         (env_at 1 7, WithdrawProviderRevenue 5 2 1),
         (env_at 3 8, ReportUsage 5 2 1 ''ref1'')] demoSettled)) 152)"
    using usage_status_only_advances [where w = demoSettled and usageId = 152
        and erc = demoToken and ?keccak256.0 = lengthHash] by blast
  with st show ?thesis
    by (simp add: usage_path_def)
qed

text \<open>
  C9. The number 0 is falsy, so a request whose \<^verbatim>\<open>nonce\<close> or \<^verbatim>\<open>deadline\<close> is the
  number 0 is rejected before any other use of these fields: with "Missing
  nonce/deadline/signature" when the consumer is a valid address, and with "Missing or
  invalid consumer" otherwise (both are the kind \<open>Malformed\<close> of the specification).
\<close>

theorem zero_nonce_or_deadline_counts_as_missing:
  "\<not> truthy (Number (Finite 0))
   \<and> (getProp body ''nonce'' = Number (Finite 0) \<or> getProp body ''deadline'' = Number (Finite 0) \<longrightarrow>
        (verifySignedRequest rt eip712Domain dateNow body expectedApiId
           = Inl MissingOrInvalidConsumer
         \<or> verifySignedRequest rt eip712Domain dateNow body expectedApiId
           = Inl MissingNonceDeadlineSignature))
   \<and> ((getProp body ''nonce'' = Number (Finite 0) \<or> getProp body ''deadline'' = Number (Finite 0))
        \<and> truthy (getProp body ''consumer'') \<and> isAddress rt (getProp body ''consumer'') \<longrightarrow>
        verifySignedRequest rt eip712Domain dateNow body expectedApiId
          = Inl MissingNonceDeadlineSignature)"
  unfolding verifySignedRequest_def Let_def getProp_body_or_empty
  by auto

theorem zero_nonce_or_deadline_counts_as_missing_witness:
  "verifySignedRequest demoRuntime demoDomain 5000
      (signedBody demoConsumer (Number (Finite 0)) (Number (Finite 9)) (String ''0xsig'')) ''api''
     = Inl MissingNonceDeadlineSignature
   \<and> verifySignedRequest demoRuntime demoDomain 5000
      (signedBody demoConsumer (Number (Finite 1)) (Number (Finite 9)) (String ''0xsig'')) ''api''
     = Inr (demoConsumer, Number (Finite 1), Number (Finite 9), String ''0xsig'')"
proof -
  have h: "(getProp (signedBody demoConsumer (Number (Finite 0)) (Number (Finite 9))
                (String ''0xsig'')) ''nonce'' = Number (Finite 0)
            \<or> getProp (signedBody demoConsumer (Number (Finite 0)) (Number (Finite 9))
                (String ''0xsig'')) ''deadline'' = Number (Finite 0))
       \<and> truthy (getProp (signedBody demoConsumer (Number (Finite 0)) (Number (Finite 9))
                (String ''0xsig'')) ''consumer'')
       \<and> isAddress demoRuntime (getProp (signedBody demoConsumer (Number (Finite 0))
                (Number (Finite 9)) (String ''0xsig'')) ''consumer'')"
    by (simp add: gateway_defs)
  from zero_nonce_or_deadline_counts_as_missing [where rt = demoRuntime
      and eip712Domain = demoDomain and dateNow = 5000 and expectedApiId = "''api''"
      and body = "signedBody demoConsumer (Number (Finite 0)) (Number (Finite 9)) (String ''0xsig'')"]
    h
  have 1: "verifySignedRequest demoRuntime demoDomain 5000
      (signedBody demoConsumer (Number (Finite 0)) (Number (Finite 9)) (String ''0xsig'')) ''api''
     = Inl MissingNonceDeadlineSignature"
    by blast
  have 2: "verifySignedRequest demoRuntime demoDomain 5000
      (signedBody demoConsumer (Number (Finite 1)) (Number (Finite 9)) (String ''0xsig'')) ''api''
     = Inr (demoConsumer, Number (Finite 1), Number (Finite 9), String ''0xsig'')"
    unfolding demoConsumer_def by code_simp
  from 1 2 show ?thesis by blast
qed

text \<open>
  C10. In \<^verbatim>\<open>prepay\<close> the amount \<open>pricePerUnit \<times> units\<close> is computed with checked 256-bit
  arithmetic: when the product of the two numbers exceeds \<open>2 ^ 256 - 1\<close> the transaction
  fails and credits nothing, and when the other checks pass it fails with the arithmetic
  panic.
\<close>

theorem prepay_overflow_reverts:
  "(2 ^ 256 \<le> unat (cfg_pricePerUnit (getApiConfig s apiId)) * unat units \<longrightarrow>
      (\<exists>err. transact erc keccak256 e (Prepay apiId units consumer) (s, t) = (Inl err, (s, t))))
   \<and> (2 ^ 256 \<le> unat (cfg_pricePerUnit (getApiConfig s apiId)) * unat units
        \<and> cfg_provider (getApiConfig s apiId) \<noteq> 0 \<and> cfg_active (getApiConfig s apiId)
        \<and> consumer \<noteq> 0 \<longrightarrow>
      transact erc keccak256 e (Prepay apiId units consumer) (s, t) = (Inl ArithmeticPanic, (s, t)))"
proof (intro conjI impI)
  assume big: "2 ^ 256 \<le> unat (cfg_pricePerUnit (getApiConfig s apiId)) * unat units"
  then have "checked_mul (cfg_pricePerUnit (s_apis s apiId)) units = Inl ArithmeticPanic"
    by (simp add: checked_mul_def getApiConfig_def)
  then have "\<exists>err. prepay erc e apiId units consumer (s, t) = Inl err"
    by (simp add: prepay_def Let_def)
  then show "\<exists>err. transact erc keccak256 e (Prepay apiId units consumer) (s, t) = (Inl err, (s, t))"
    by (auto simp: transact_def)
next
  assume h: "2 ^ 256 \<le> unat (cfg_pricePerUnit (getApiConfig s apiId)) * unat units
        \<and> cfg_provider (getApiConfig s apiId) \<noteq> 0 \<and> cfg_active (getApiConfig s apiId)
        \<and> consumer \<noteq> 0"
  then have m: "checked_mul (cfg_pricePerUnit (s_apis s apiId)) units = Inl ArithmeticPanic"
    by (simp add: checked_mul_def getApiConfig_def)
  from h have "units \<noteq> 0"
    by (auto simp: getApiConfig_def)
  then have "0 < units"
    by (simp add: word_greater_zero_iff)
  with h m have "prepay erc e apiId units consumer (s, t) = Inl ArithmeticPanic"
    by (simp add: prepay_def Let_def getApiConfig_def)
  then show "transact erc keccak256 e (Prepay apiId units consumer) (s, t) = (Inl ArithmeticPanic, (s, t))"
    by (simp add: transact_def)
qed

theorem prepay_overflow_reverts_witness:
  "cfg_pricePerUnit (getApiConfig (fst demoExpensive) 5) * 2 = 0
   \<and> transact demoToken lengthHash (env_at 2 2) (Prepay 5 2 2) demoExpensive
       = (Inl ArithmeticPanic, demoExpensive)"
proof -
  have h: "2 ^ 256 \<le> unat (cfg_pricePerUnit (getApiConfig (fst demoExpensive) 5)) * unat (2 :: uint256)
        \<and> cfg_provider (getApiConfig (fst demoExpensive) 5) \<noteq> 0
        \<and> cfg_active (getApiConfig (fst demoExpensive) 5) \<and> (2 :: address) \<noteq> 0"
    by (simp add: ledger_defs)
  have w: "cfg_pricePerUnit (getApiConfig (fst demoExpensive) 5) * 2 = 0"
    by (simp add: ledger_defs)
  from prepay_overflow_reverts [where s = "fst demoExpensive" and t = "snd demoExpensive"
      and apiId = 5 and units = 2 and consumer = 2 and erc = demoToken
      and ?keccak256.0 = lengthHash and e = "env_at 2 2"] h
  have "transact demoToken lengthHash (env_at 2 2) (Prepay 5 2 2)
          (fst demoExpensive, snd demoExpensive)
        = (Inl ArithmeticPanic, (fst demoExpensive, snd demoExpensive))"
    by blast
  with w show ?thesis by simp
qed

end
